theory Spec2Isabelle
  imports Main
begin

section \<open>Hackathon team management API: data model\<close>

text \<open>
  The tables of \<^verbatim>\<open>models.py\<close> as records, one row each. A nullable column is an
  \<open>option\<close>. A \<^verbatim>\<open>DateTime\<close> is an integer count of microseconds, the resolution of
  Python's \<^verbatim>\<open>datetime\<close>. The columns \<^verbatim>\<open>created_at\<close> and \<^verbatim>\<open>updated_at\<close> are filled by
  the database server and read by no endpoint; they are left out.
\<close>

type_synonym time = int

record team =
  t_id :: int
  t_name :: string
  t_leader_name :: string
  t_leader_email :: string
  t_description :: "string option"
  t_max_members :: int

record member =
  m_id :: int
  m_team_id :: int
  m_name :: string
  m_email :: string
  m_phone :: "string option"
  m_role :: "string option"

record invitation =
  i_id :: int
  i_team_id :: int
  i_email :: string
  i_phone :: "string option"
  i_token :: string
  i_is_used :: bool
  i_expires_at :: time

record otp =
  o_id :: int
  o_phone :: string
  o_otp_code :: string
  o_invitation_token :: string
  o_is_verified :: bool
  o_expires_at :: time

text \<open>The database: the four tables, each in row order.\<close>

record db =
  teams :: "team list"
  members :: "member list"
  invitations :: "invitation list"
  otps :: "otp list"

definition empty_db :: db where
  "empty_db = \<lparr>teams = [], members = [], invitations = [], otps = []\<rparr>"

text \<open>The request bodies of \<^verbatim>\<open>schemas.py\<close>.\<close>

record team_create =
  tc_name :: string
  tc_leader_name :: string
  tc_leader_email :: string
  tc_description :: "string option"
  tc_max_members :: int

record team_update =
  tu_name :: "string option"
  tu_description :: "string option"
  tu_max_members :: "int option"

record member_create =
  mc_name :: string
  mc_email :: string
  mc_phone :: "string option"
  mc_role :: "string option"

record invitation_create =
  ic_email :: string
  ic_phone :: "string option"

record otp_verify =
  ov_invitation_token :: string
  ov_otp_code :: string

record join_team_request =
  j_name :: string
  j_role :: "string option"

text \<open>
  The pattern \<^verbatim>\<open>^\+?[1-9]\d{1,14}$\<close> that \<^verbatim>\<open>MemberBase.phone\<close> and
  \<^verbatim>\<open>InvitationCreate.phone\<close> are validated against. A \<open>char\<close> is a code point below 256;
  among these the pattern's \<^verbatim>\<open>\d\<close> matches the ten decimal digits, \<open>ascii_digit\<close>.
\<close>

definition ascii_digit :: "char \<Rightarrow> bool" where
  "ascii_digit c = (c \<in> set ''0123456789'')"

definition phone_pattern :: "string \<Rightarrow> bool" where
  "phone_pattern s =
     (case (case s of [] \<Rightarrow> [] | c # r \<Rightarrow> if c = CHR ''+'' then r else s) of
        [] \<Rightarrow> False
      | d # ds \<Rightarrow> d \<in> set ''123456789'' \<and> 1 \<le> length ds \<and> length ds \<le> 14 \<and> list_all ascii_digit ds)"

text \<open>
  What an endpoint raises. An \<^verbatim>\<open>HTTPException\<close> carries its status code and its detail;
  the detail messages of \<^verbatim>\<open>main.py\<close> are:
  \<^item> \<open>Team_not_found\<close>: "Team not found"
  \<^item> \<open>Team_name_exists\<close>: "Team name already exists"
  \<^item> \<open>Leader_email_registered\<close>: "This email is already registered as a team leader"
  \<^item> \<open>Team_is_full n\<close>: "Team is full (max n members)"
  \<^item> \<open>Member_email_exists\<close>: "Member with this email already exists in the team"
  \<^item> \<open>Member_not_found\<close>: "Member not found in this team"
  \<^item> \<open>Active_invitation_exists\<close>: "An active invitation already exists for this email"
  \<^item> \<open>Already_member\<close>: "This email is already a member of the team"
  \<^item> \<open>Invitation_not_found\<close>: "Invitation not found"
  \<^item> \<open>Invitation_used\<close>: "This invitation has already been used"
  \<^item> \<open>Invitation_expired\<close>: "This invitation has expired"
  \<^item> \<open>No_phone\<close>: "This invitation does not have a phone number"
  \<^item> \<open>Invalid_OTP\<close>: "Invalid OTP code"
  \<^item> \<open>OTP_expired\<close>: "OTP has expired. Please request a new one."
  \<^item> \<open>OTP_required\<close>: "OTP verification required. Please verify your phone number first."

  \<open>IntegrityError\<close> is the commit refused by the unique constraint on
  \<^verbatim>\<open>Invitation.token\<close>; \<open>AttributeError\<close> is \<^verbatim>\<open>team.max_members\<close> read on \<^verbatim>\<open>None\<close>.
\<close>

datatype detail =
    Team_not_found
  | Team_name_exists
  | Leader_email_registered
  | Team_is_full int
  | Member_email_exists
  | Member_not_found
  | Active_invitation_exists
  | Already_member
  | Invitation_not_found
  | Invitation_used
  | Invitation_expired
  | No_phone
  | Invalid_OTP
  | OTP_expired
  | OTP_required

datatype error = HTTPException nat detail | IntegrityError | AttributeError

section \<open>utils.py\<close>

text \<open>
  The clock and the random source are inputs. One request reads \<^verbatim>\<open>datetime.utcnow()\<close>
  up to three times; each reading is a field of its own, in the order the request takes
  them. \<open>base_url\<close> is the configured \<^verbatim>\<open>BASE_URL\<close>. \<open>str_isdigit\<close> is Python's
  \<^verbatim>\<open>str.isdigit\<close>: a table of the interpreter, which accepts more than the ten decimal
  digits (superscript two, for one), so it is taken as given and not written out.
\<close>

record env =
  utcnow1 :: time
  utcnow2 :: time
  utcnow3 :: time
  rnd_token :: string
  rnd_otp :: string
  base_url :: string
  str_isdigit :: "char \<Rightarrow> bool"

definition hours :: "int \<Rightarrow> time" where
  "hours h = h * 3600000000"

definition minutes :: "int \<Rightarrow> time" where
  "minutes m = m * 60000000"

definition get_invitation_expiry :: "time \<Rightarrow> int \<Rightarrow> time" where
  "get_invitation_expiry now h = now + hours h"

definition get_otp_expiry :: "time \<Rightarrow> int \<Rightarrow> time" where
  "get_otp_expiry now m = now + minutes m"

definition is_expired :: "time \<Rightarrow> time \<Rightarrow> bool" where
  "is_expired now expiry_time = (now > expiry_time)"

text \<open>
  \<^verbatim>\<open>format_phone_number\<close> keeps the characters that \<^verbatim>\<open>str.isdigit\<close> accepts, whichever
  they are: the predicate is its first argument.
\<close>

definition startswith_plus :: "string \<Rightarrow> bool" where
  "startswith_plus phone = (case phone of [] \<Rightarrow> False | c # _ \<Rightarrow> c = CHR ''+'')"

definition format_phone_number :: "(char \<Rightarrow> bool) \<Rightarrow> string \<Rightarrow> string" where
  "format_phone_number isdigit phone =
     (let digits = filter isdigit phone
      in if \<not> startswith_plus phone then ''+'' @ digits else ''+'' @ digits)"

text \<open>Python's truth value of an \<^verbatim>\<open>Optional[str]\<close>: \<^verbatim>\<open>None\<close> and the empty string are false.\<close>

definition truthy :: "string option \<Rightarrow> bool" where
  "truthy p = (case p of None \<Rightarrow> False | Some s \<Rightarrow> s \<noteq> [])"

section \<open>The database session\<close>

text \<open>
  \<^verbatim>\<open>get_db\<close> opens one session per request and closes it on exit. Writes are staged in
  the session and reach the database at \<^verbatim>\<open>db.commit()\<close>; closing drops what was staged
  and not committed.
\<close>

record session =
  persisted :: db
  pending :: db

definition session_begin :: "db \<Rightarrow> session" where
  "session_begin d = \<lparr>persisted = d, pending = d\<rparr>"

definition db_commit :: "session \<Rightarrow> session" where
  "db_commit sess = sess\<lparr>persisted := pending sess\<rparr>"

definition db_close :: "session \<Rightarrow> db" where
  "db_close sess = persisted sess"

definition stage :: "(db \<Rightarrow> db) \<Rightarrow> session \<Rightarrow> session" where
  "stage f sess = sess\<lparr>pending := f (pending sess)\<rparr>"

text \<open>
  The primary key of a new row is given by the database: with the default SQLite
  engine, one more than the largest key of the table, and 1 in an empty table.
\<close>

definition next_id :: "int list \<Rightarrow> int" where
  "next_id ids = (if ids = [] then 1 else Max (set ids) + 1)"

definition db_add_team :: "team \<Rightarrow> session \<Rightarrow> session" where
  "db_add_team t = stage (\<lambda>d. d\<lparr>teams := teams d @ [t]\<rparr>)"

definition db_add_member :: "member \<Rightarrow> session \<Rightarrow> session" where
  "db_add_member m = stage (\<lambda>d. d\<lparr>members := members d @ [m]\<rparr>)"

definition db_add_invitation :: "invitation \<Rightarrow> session \<Rightarrow> session" where
  "db_add_invitation i = stage (\<lambda>d. d\<lparr>invitations := invitations d @ [i]\<rparr>)"

definition db_add_otp :: "otp \<Rightarrow> session \<Rightarrow> session" where
  "db_add_otp v = stage (\<lambda>d. d\<lparr>otps := otps d @ [v]\<rparr>)"

text \<open>An attribute assignment on a loaded row updates the row with that primary key.\<close>

definition set_invitation_used :: "invitation \<Rightarrow> session \<Rightarrow> session" where
  "set_invitation_used invitation =
     stage (\<lambda>d. d\<lparr>invitations :=
       map (\<lambda>i. if i_id i = i_id invitation then i\<lparr>i_is_used := True\<rparr> else i) (invitations d)\<rparr>)"

definition set_otp_verified :: "otp \<Rightarrow> session \<Rightarrow> session" where
  "set_otp_verified r =
     stage (\<lambda>d. d\<lparr>otps :=
       map (\<lambda>v. if o_id v = o_id r then v\<lparr>o_is_verified := True\<rparr> else v) (otps d)\<rparr>)"

text \<open>
  The writes of a request, in the order the request issues them. A write can raise (the
  connection drops, the database refuses the statement); the request ends there and
  \<^verbatim>\<open>get_db\<close> closes the session. \<open>interrupted k ops d\<close> is the database this leaves when the
  first \<open>k\<close> writes were done and the next one raised. A commit is done or not done, never
  half: that much is the database's own guarantee.
\<close>

datatype db_op = Op_add_member member | Op_set_used invitation | Op_commit

fun apply_op :: "db_op \<Rightarrow> session \<Rightarrow> session" where
  "apply_op (Op_add_member m) sess = db_add_member m sess"
| "apply_op (Op_set_used i) sess = set_invitation_used i sess"
| "apply_op Op_commit sess = db_commit sess"

fun run_ops :: "db_op list \<Rightarrow> session \<Rightarrow> session" where
  "run_ops [] sess = sess"
| "run_ops (x # xs) sess = run_ops xs (apply_op x sess)"

definition interrupted :: "nat \<Rightarrow> db_op list \<Rightarrow> db \<Rightarrow> db" where
  "interrupted k ops d = db_close (run_ops (take k ops) (session_begin d))"

section \<open>Queries\<close>

definition get_team_by_id :: "db \<Rightarrow> int \<Rightarrow> team option" where
  "get_team_by_id d team_id = find (\<lambda>t. t_id t = team_id) (teams d)"

definition count_members :: "db \<Rightarrow> int \<Rightarrow> nat" where
  "count_members d team_id = length (filter (\<lambda>m. m_team_id m = team_id) (members d))"

definition get_invitation_by_token :: "db \<Rightarrow> string \<Rightarrow> invitation option" where
  "get_invitation_by_token d token = find (\<lambda>i. i_token i = token) (invitations d)"

definition verified_otp :: "db \<Rightarrow> string \<Rightarrow> otp option" where
  "verified_otp d token =
     find (\<lambda>v. o_invitation_token v = token \<and> o_is_verified v = True) (otps d)"

section \<open>Endpoints of main.py\<close>

text \<open>
  An endpoint takes the database as the request finds it and returns the database as
  the request leaves it, with the response: \<open>Inl\<close> what was raised, \<open>Inr\<close> the body.
  The read-only endpoints (\<^verbatim>\<open>GET\<close>) commit nothing and are not modelled.
\<close>

definition create_team :: "db \<Rightarrow> team_create \<Rightarrow> db \<times> (error + team)" where
  "create_team d team =
     (case find (\<lambda>t. t_name t = tc_name team) (teams d) of
        Some existing_team \<Rightarrow> (d, Inl (HTTPException 400 Team_name_exists))
      | None \<Rightarrow>
     (case find (\<lambda>t. t_leader_email t = tc_leader_email team) (teams d) of
        Some existing_leader \<Rightarrow> (d, Inl (HTTPException 400 Leader_email_registered))
      | None \<Rightarrow>
     (let db_team = \<lparr>t_id = next_id (map t_id (teams d)),
                     t_name = tc_name team,
                     t_leader_name = tc_leader_name team,
                     t_leader_email = tc_leader_email team,
                     t_description = tc_description team,
                     t_max_members = tc_max_members team\<rparr>;
          sess = db_commit (db_add_team db_team (session_begin d))
      in (db_close sess, Inr db_team))))"

definition apply_team_update :: "team_update \<Rightarrow> team \<Rightarrow> team" where
  "apply_team_update team_update db_team =
     (let t1 = (case tu_name team_update of
                  None \<Rightarrow> db_team | Some n \<Rightarrow> db_team\<lparr>t_name := n\<rparr>);
          t2 = (case tu_description team_update of
                  None \<Rightarrow> t1 | Some x \<Rightarrow> t1\<lparr>t_description := Some x\<rparr>);
          t3 = (case tu_max_members team_update of
                  None \<Rightarrow> t2 | Some k \<Rightarrow> t2\<lparr>t_max_members := k\<rparr>)
      in t3)"

definition update_team :: "db \<Rightarrow> int \<Rightarrow> team_update \<Rightarrow> db \<times> (error + team)" where
  "update_team d team_id team_update =
     (case get_team_by_id d team_id of
        None \<Rightarrow> (d, Inl (HTTPException 404 Team_not_found))
      | Some db_team \<Rightarrow>
     (if (case tu_name team_update of
            None \<Rightarrow> False
          | Some n \<Rightarrow> find (\<lambda>t. t_name t = n \<and> t_id t \<noteq> team_id) (teams d) \<noteq> None)
      then (d, Inl (HTTPException 400 Team_name_exists))
      else
        (let sess = stage (\<lambda>x. x\<lparr>teams :=
                       map (\<lambda>t. if t_id t = team_id then apply_team_update team_update t else t)
                           (teams x)\<rparr>) (session_begin d);
             sess = db_commit sess
         in (db_close sess, Inr (apply_team_update team_update db_team)))))"

text \<open>
  Deleting a team deletes its members and its invitations with it (the
  \<^verbatim>\<open>cascade="all, delete-orphan"\<close> of both relationships). OTP rows are tied to no
  team and stay.
\<close>

definition delete_team :: "db \<Rightarrow> int \<Rightarrow> db \<times> (error + unit)" where
  "delete_team d team_id =
     (case get_team_by_id d team_id of
        None \<Rightarrow> (d, Inl (HTTPException 404 Team_not_found))
      | Some db_team \<Rightarrow>
        (let sess = stage (\<lambda>x. x\<lparr>teams := filter (\<lambda>t. t_id t \<noteq> team_id) (teams x),
                                  members := filter (\<lambda>m. m_team_id m \<noteq> team_id) (members x),
                                  invitations :=
                                    filter (\<lambda>i. i_team_id i \<noteq> team_id) (invitations x)\<rparr>)
                          (session_begin d);
             sess = db_commit sess
         in (db_close sess, Inr ())))"

definition add_team_member :: "db \<Rightarrow> int \<Rightarrow> member_create \<Rightarrow> db \<times> (error + member)" where
  "add_team_member d team_id member =
     (case get_team_by_id d team_id of
        None \<Rightarrow> (d, Inl (HTTPException 404 Team_not_found))
      | Some db_team \<Rightarrow>
     (let current_members = count_members d team_id in
      if int current_members \<ge> t_max_members db_team
      then (d, Inl (HTTPException 400 (Team_is_full (t_max_members db_team))))
      else
     (case find (\<lambda>m. m_team_id m = team_id \<and> m_email m = mc_email member) (members d) of
        Some existing_member \<Rightarrow> (d, Inl (HTTPException 400 Member_email_exists))
      | None \<Rightarrow>
     (let db_member = \<lparr>m_id = next_id (map m_id (members d)),
                       m_team_id = team_id,
                       m_name = mc_name member,
                       m_email = mc_email member,
                       m_phone = None,
                       m_role = mc_role member\<rparr>;
          sess = db_add_member db_member (session_begin d);
          sess = db_commit sess
      in (db_close sess, Inr db_member)))))"

definition remove_team_member :: "db \<Rightarrow> int \<Rightarrow> int \<Rightarrow> db \<times> (error + unit)" where
  "remove_team_member d team_id member_id =
     (case find (\<lambda>m. m_id m = member_id \<and> m_team_id m = team_id) (members d) of
        None \<Rightarrow> (d, Inl (HTTPException 404 Member_not_found))
      | Some db_member \<Rightarrow>
        (let sess = stage (\<lambda>x. x\<lparr>members := filter (\<lambda>m. m_id m \<noteq> member_id) (members x)\<rparr>)
                          (session_begin d);
             sess = db_commit sess
         in (db_close sess, Inr ())))"

text \<open>
  The body returned for an invitation: the row, and the link built from \<^verbatim>\<open>BASE_URL\<close>
  and the token. \<open>ir_sms\<close> is what was handed to \<^verbatim>\<open>send_otp_sms\<close>, if anything.
\<close>

record invitation_response =
  ir_invitation :: invitation
  ir_invite_link :: string
  ir_sms :: "(string \<times> string) option"

definition create_invitation ::
  "db \<Rightarrow> int \<Rightarrow> invitation_create \<Rightarrow> env \<Rightarrow> db \<times> (error + invitation_response)" where
  "create_invitation d team_id invitation e =
     (case get_team_by_id d team_id of
        None \<Rightarrow> (d, Inl (HTTPException 404 Team_not_found))
      | Some db_team \<Rightarrow>
     (let current_members = count_members d team_id in
      if int current_members \<ge> t_max_members db_team
      then (d, Inl (HTTPException 400 (Team_is_full (t_max_members db_team))))
      else
     (case find (\<lambda>i. i_team_id i = team_id \<and> i_email i = ic_email invitation \<and>
                      i_is_used i = False \<and> i_expires_at i > utcnow1 e) (invitations d) of
        Some existing_invitation \<Rightarrow> (d, Inl (HTTPException 400 Active_invitation_exists))
      | None \<Rightarrow>
     (case find (\<lambda>m. m_team_id m = team_id \<and> m_email m = ic_email invitation) (members d) of
        Some existing_member \<Rightarrow> (d, Inl (HTTPException 400 Already_member))
      | None \<Rightarrow>
     (let formatted_phone =
            (case ic_phone invitation of
               None \<Rightarrow> None
             | Some p \<Rightarrow> if p \<noteq> [] then Some (format_phone_number (str_isdigit e) p) else None);
          token = rnd_token e;
          expires_at = get_invitation_expiry (utcnow2 e) 48;
          db_invitation = \<lparr>i_id = next_id (map i_id (invitations d)),
                           i_team_id = team_id,
                           i_email = ic_email invitation,
                           i_phone = formatted_phone,
                           i_token = token,
                           i_is_used = False,
                           i_expires_at = expires_at\<rparr>
      in if token \<in> set (map i_token (invitations d)) then (d, Inl IntegrityError)
         else
     (let sess = db_commit (db_add_invitation db_invitation (session_begin d));
          link = base_url e @ ''/join/'' @ token
      in (case formatted_phone of
            None \<Rightarrow> (db_close sess,
                      Inr \<lparr>ir_invitation = db_invitation, ir_invite_link = link, ir_sms = None\<rparr>)
          | Some fp \<Rightarrow>
              if fp = [] then
                (db_close sess,
                 Inr \<lparr>ir_invitation = db_invitation, ir_invite_link = link, ir_sms = None\<rparr>)
              else
                (let otp_code = rnd_otp e;
                     otp_expires_at = get_otp_expiry (utcnow3 e) 10;
                     db_otp = \<lparr>o_id = next_id (map o_id (otps (pending sess))),
                               o_phone = fp,
                               o_otp_code = otp_code,
                               o_invitation_token = token,
                               o_is_verified = False,
                               o_expires_at = otp_expires_at\<rparr>;
                     sess = db_commit (db_add_otp db_otp sess)
                 in (db_close sess,
                     Inr \<lparr>ir_invitation = db_invitation, ir_invite_link = link,
                          ir_sms = Some (fp, otp_code)\<rparr>)))))))))"

record otp_response =
  or_phone :: string
  or_expires_at :: time
  or_sms :: "string \<times> string"

definition resend_otp :: "db \<Rightarrow> string \<Rightarrow> env \<Rightarrow> db \<times> (error + otp_response)" where
  "resend_otp d token e =
     (case get_invitation_by_token d token of
        None \<Rightarrow> (d, Inl (HTTPException 404 Invitation_not_found))
      | Some invitation \<Rightarrow>
     (case i_phone invitation of
        None \<Rightarrow> (d, Inl (HTTPException 400 No_phone))
      | Some phone \<Rightarrow>
      if phone = [] then (d, Inl (HTTPException 400 No_phone))
      else if i_is_used invitation then (d, Inl (HTTPException 400 Invitation_used))
      else if is_expired (utcnow1 e) (i_expires_at invitation)
      then (d, Inl (HTTPException 400 Invitation_expired))
      else
        (let sess = stage (\<lambda>x. x\<lparr>otps :=
                       filter (\<lambda>v. \<not> (o_invitation_token v = token \<and> o_is_verified v = False))
                              (otps x)\<rparr>) (session_begin d);
             otp_code = rnd_otp e;
             otp_expires_at = get_otp_expiry (utcnow2 e) 10;
             db_otp = \<lparr>o_id = next_id (map o_id (otps (pending sess))),
                       o_phone = phone,
                       o_otp_code = otp_code,
                       o_invitation_token = token,
                       o_is_verified = False,
                       o_expires_at = otp_expires_at\<rparr>;
             sess = db_commit (db_add_otp db_otp sess)
         in (db_close sess,
             Inr \<lparr>or_phone = phone, or_expires_at = otp_expires_at,
                  or_sms = (phone, otp_code)\<rparr>))))"

definition verify_otp :: "db \<Rightarrow> otp_verify \<Rightarrow> time \<Rightarrow> db \<times> (error + bool)" where
  "verify_otp d otp_data now =
     (case find (\<lambda>v. o_invitation_token v = ov_invitation_token otp_data \<and>
                      o_otp_code v = ov_otp_code otp_data \<and>
                      o_is_verified v = False) (otps d) of
        None \<Rightarrow> (d, Inl (HTTPException 400 Invalid_OTP))
      | Some otp_record \<Rightarrow>
      if is_expired now (o_expires_at otp_record)
      then (d, Inl (HTTPException 400 OTP_expired))
      else
        (let sess = set_otp_verified otp_record (session_begin d);
             sess = db_commit sess
         in (db_close sess, Inr True)))"

text \<open>
  The writes of a join: \<^verbatim>\<open>db.add(db_member)\<close>, then \<^verbatim>\<open>invitation.is_used = True\<close>, then
  \<^verbatim>\<open>db.commit()\<close>, the only commit of the request.
\<close>

definition join_member :: "db \<Rightarrow> invitation \<Rightarrow> join_team_request \<Rightarrow> member" where
  "join_member d invitation join_data =
     \<lparr>m_id = next_id (map m_id (members d)),
      m_team_id = i_team_id invitation,
      m_name = j_name join_data,
      m_email = i_email invitation,
      m_phone = i_phone invitation,
      m_role = j_role join_data\<rparr>"

definition join_writes :: "db \<Rightarrow> invitation \<Rightarrow> join_team_request \<Rightarrow> db_op list" where
  "join_writes d invitation join_data =
     [Op_add_member (join_member d invitation join_data),
      Op_set_used invitation,
      Op_commit]"

definition join_team_via_invitation ::
  "db \<Rightarrow> string \<Rightarrow> join_team_request \<Rightarrow> time \<Rightarrow> db \<times> (error + member)" where
  "join_team_via_invitation d token join_data now =
     (case get_invitation_by_token d token of
        None \<Rightarrow> (d, Inl (HTTPException 404 Invitation_not_found))
      | Some invitation \<Rightarrow>
      if i_is_used invitation then (d, Inl (HTTPException 400 Invitation_used))
      else if is_expired now (i_expires_at invitation)
      then (d, Inl (HTTPException 400 Invitation_expired))
      else if truthy (i_phone invitation) \<and> verified_otp d token = None
      then (d, Inl (HTTPException 400 OTP_required))
      else
     (case get_team_by_id d (i_team_id invitation) of
        None \<Rightarrow> (d, Inl AttributeError)
      | Some team \<Rightarrow>
     (let current_members = count_members d (i_team_id invitation) in
      if int current_members \<ge> t_max_members team
      then (d, Inl (HTTPException 400 (Team_is_full (t_max_members team))))
      else
        (let sess = run_ops (join_writes d invitation join_data) (session_begin d)
         in (db_close sess, Inr (join_member d invitation join_data))))))"

section \<open>Requests and runs\<close>

datatype request =
    Create_team team_create
  | Update_team int team_update
  | Delete_team int
  | Add_team_member int member_create
  | Remove_team_member int int
  | Create_invitation int invitation_create env
  | Resend_otp string env
  | Verify_otp otp_verify time
  | Join string join_team_request time

fun step :: "db \<Rightarrow> request \<Rightarrow> db" where
  "step d (Create_team team) = fst (create_team d team)"
| "step d (Update_team team_id team_update) = fst (update_team d team_id team_update)"
| "step d (Delete_team team_id) = fst (delete_team d team_id)"
| "step d (Add_team_member team_id member) = fst (add_team_member d team_id member)"
| "step d (Remove_team_member team_id member_id) = fst (remove_team_member d team_id member_id)"
| "step d (Create_invitation team_id invitation e) = fst (create_invitation d team_id invitation e)"
| "step d (Resend_otp token e) = fst (resend_otp d token e)"
| "step d (Verify_otp otp_data now) = fst (verify_otp d otp_data now)"
| "step d (Join token join_data now) = fst (join_team_via_invitation d token join_data now)"

fun run :: "db \<Rightarrow> request list \<Rightarrow> db" where
  "run d [] = d"
| "run d (r # rs) = run (step d r) rs"

inductive reachable :: "db \<Rightarrow> bool" where
  reachable_init: "reachable empty_db"
| reachable_step: "reachable d \<Longrightarrow> reachable (step d r)"

section \<open>State predicates\<close>

text \<open>
  A team is within capacity when it has no more members than \<open>max_members\<close>. The primary
  key of a table and the unique constraint on \<^verbatim>\<open>Invitation.token\<close> are facts of the
  schema; \<open>phones_formatted\<close> says that no stored invitation phone is the empty string.
\<close>

definition within_capacity :: "db \<Rightarrow> team \<Rightarrow> bool" where
  "within_capacity d t = (int (count_members d (t_id t)) \<le> t_max_members t)"

definition capacity_ok :: "db \<Rightarrow> bool" where
  "capacity_ok d = list_all (within_capacity d) (teams d)"

definition team_ids_unique :: "db \<Rightarrow> bool" where
  "team_ids_unique d = distinct (map t_id (teams d))"

definition tokens_unique :: "db \<Rightarrow> bool" where
  "tokens_unique d = distinct (map i_token (invitations d))"

definition phones_formatted :: "db \<Rightarrow> bool" where
  "phones_formatted d = list_all (\<lambda>i. i_phone i \<noteq> Some []) (invitations d)"



section \<open>Example databases\<close>

text \<open>
  A team of capacity 1 that already has its one member, with four invitations: one with
  a phone and a verified OTP that ran out at time 50, one used, one expired at time 10,
  one plain. \<open>roomy_db\<close> is the same with capacity 5.
\<close>

definition team1 :: team where
  "team1 = \<lparr>t_id = 1, t_name = ''Innovation Squad'', t_leader_name = ''Alice Johnson'',
            t_leader_email = ''alice@innovationsquad.com'', t_description = None,
            t_max_members = 1\<rparr>"

definition carol :: member where
  "carol = \<lparr>m_id = 1, m_team_id = 1, m_name = ''Carol'', m_email = ''carol@example.com'',
            m_phone = None, m_role = None\<rparr>"

definition inv_bob :: invitation where
  "inv_bob = \<lparr>i_id = 1, i_team_id = 1, i_email = ''bob@example.com'',
              i_phone = Some ''+919876543210'', i_token = ''tokbob'', i_is_used = False,
              i_expires_at = 1000\<rparr>"

definition inv_dave :: invitation where
  "inv_dave = \<lparr>i_id = 2, i_team_id = 1, i_email = ''dave@example.com'',
               i_phone = None, i_token = ''tokdave'', i_is_used = True,
               i_expires_at = 1000\<rparr>"

definition inv_erin :: invitation where
  "inv_erin = \<lparr>i_id = 3, i_team_id = 1, i_email = ''erin@example.com'',
               i_phone = None, i_token = ''tokerin'', i_is_used = False,
               i_expires_at = 10\<rparr>"

definition inv_frank :: invitation where
  "inv_frank = \<lparr>i_id = 4, i_team_id = 1, i_email = ''frank@example.com'',
                i_phone = None, i_token = ''tokfrank'', i_is_used = False,
                i_expires_at = 1000\<rparr>"

definition inv_gina :: invitation where
  "inv_gina = \<lparr>i_id = 5, i_team_id = 1, i_email = ''gina@example.com'',
               i_phone = Some ''+14155550100'', i_token = ''tokgina'', i_is_used = False,
               i_expires_at = 1000\<rparr>"

definition otp_bob :: otp where
  "otp_bob = \<lparr>o_id = 1, o_phone = ''+919876543210'', o_otp_code = ''123456'',
              o_invitation_token = ''tokbob'', o_is_verified = True, o_expires_at = 50\<rparr>"

definition otp_gina :: otp where
  "otp_gina = \<lparr>o_id = 2, o_phone = ''+14155550100'', o_otp_code = ''654321'',
               o_invitation_token = ''tokgina'', o_is_verified = False, o_expires_at = 500\<rparr>"

definition full_db :: db where
  "full_db = \<lparr>teams = [team1], members = [carol],
              invitations = [inv_bob, inv_dave, inv_erin, inv_frank, inv_gina],
              otps = [otp_bob, otp_gina]\<rparr>"

definition roomy_db :: db where
  "roomy_db = full_db\<lparr>teams := [team1\<lparr>t_max_members := 5\<rparr>]\<rparr>"

definition jd0 :: join_team_request where
  "jd0 = \<lparr>j_name = ''Newcomer'', j_role = Some ''Developer''\<rparr>"

definition dora :: member_create where
  "dora = \<lparr>mc_name = ''Dora'', mc_email = ''dora@example.com'',
           mc_phone = Some ''+919876543210'', mc_role = Some ''Designer''\<rparr>"

text \<open>
  \<^verbatim>\<open>str.isdigit\<close> on the code points below 256: the ten decimal digits and the
  superscripts two, three and one (\<open>0xB2\<close>, \<open>0xB3\<close>, \<open>0xB9\<close>).
\<close>

definition latin1_isdigit :: "char \<Rightarrow> bool" where
  "latin1_isdigit c = (c \<in> set (''0123456789'' @ [CHR 0xB2, CHR 0xB3, CHR 0xB9]))"

definition env0 :: env where
  "env0 = \<lparr>utcnow1 = 100, utcnow2 = 101, utcnow3 = 102, rnd_token = ''tokhank'',
           rnd_otp = ''111222'', base_url = ''http://localhost:3000'',
           str_isdigit = latin1_isdigit\<rparr>"

text \<open>
  A run that ends with a team above its capacity: a team of capacity 2 takes two members
  and is then updated to capacity 1.
\<close>

definition shrink_requests :: "request list" where
  "shrink_requests =
     [Create_team \<lparr>tc_name = ''Innovation Squad'', tc_leader_name = ''Alice Johnson'',
                   tc_leader_email = ''alice@innovationsquad.com'', tc_description = None,
                   tc_max_members = 2\<rparr>,
      Add_team_member 1 \<lparr>mc_name = ''Carol'', mc_email = ''carol@example.com'',
                         mc_phone = None, mc_role = None\<rparr>,
      Add_team_member 1 dora,
      Update_team 1 \<lparr>tu_name = None, tu_description = None, tu_max_members = Some 1\<rparr>]"







lemmas example_defs = team1_def carol_def inv_bob_def inv_dave_def inv_erin_def inv_frank_def
  inv_gina_def otp_bob_def otp_gina_def full_db_def roomy_db_def jd0_def dora_def env0_def
  latin1_isdigit_def

section \<open>Basic facts\<close>

lemmas session_defs = session_begin_def db_commit_def db_close_def stage_def db_add_team_def
  db_add_member_def db_add_invitation_def db_add_otp_def set_invitation_used_def
  set_otp_verified_def

lemma join_commit_close:
  "db_close (run_ops (join_writes d iv jd) (session_begin d)) =
     d\<lparr>members := members d @ [join_member d iv jd],
       invitations := map (\<lambda>i. if i_id i = i_id iv then i\<lparr>i_is_used := True\<rparr> else i) (invitations d)\<rparr>"
  by (simp add: join_writes_def session_defs)

text \<open>
  What a request leaves behind when one of its writes raises. Nothing staged survives
  the close; everything staged before a commit that was done does.
\<close>

lemma interrupted_0: "interrupted 0 ops d = d"
  by (simp add: interrupted_def session_defs)

lemma interrupted_all:
  "length ops \<le> k \<Longrightarrow> interrupted k ops d = db_close (run_ops ops (session_begin d))"
  by (simp add: interrupted_def)

lemma join_interrupted_before_commit:
  "k < 3 \<Longrightarrow> interrupted k (join_writes d iv jd) d = d"
proof -
  assume "k < 3"
  then consider "k = 0" | "k = 1" | "k = 2" by linarith
  then show ?thesis
  proof cases
    case 1
    then show ?thesis by (simp add: interrupted_0)
  next
    case 2
    then show ?thesis by (simp add: interrupted_def join_writes_def session_defs)
  next
    case 3
    then have "take k (join_writes d iv jd) =
                 [Op_add_member (join_member d iv jd), Op_set_used iv]"
      by (simp add: join_writes_def numeral_2_eq_2)
    then show ?thesis by (simp add: interrupted_def session_defs)
  qed
qed

lemma early_commit_persists:
  "interrupted 2 [Op_add_member m, Op_commit, Op_set_used iv, Op_commit] d =
     d\<lparr>members := members d @ [m]\<rparr>"
  by (simp add: interrupted_def session_defs numeral_2_eq_2)

text \<open>The join endpoint, one lemma for each way out, in the order of the source.\<close>

lemma join_not_found:
  "get_invitation_by_token d token = None \<Longrightarrow>
   join_team_via_invitation d token jd now = (d, Inl (HTTPException 404 Invitation_not_found))"
  by (simp add: join_team_via_invitation_def)

lemma join_used:
  "get_invitation_by_token d token = Some iv \<Longrightarrow> i_is_used iv \<Longrightarrow>
   join_team_via_invitation d token jd now = (d, Inl (HTTPException 400 Invitation_used))"
  by (simp add: join_team_via_invitation_def)

lemma join_expired:
  "get_invitation_by_token d token = Some iv \<Longrightarrow> \<not> i_is_used iv \<Longrightarrow>
   is_expired now (i_expires_at iv) \<Longrightarrow>
   join_team_via_invitation d token jd now = (d, Inl (HTTPException 400 Invitation_expired))"
  by (simp add: join_team_via_invitation_def)

lemma join_otp_required:
  "get_invitation_by_token d token = Some iv \<Longrightarrow> \<not> i_is_used iv \<Longrightarrow>
   \<not> is_expired now (i_expires_at iv) \<Longrightarrow> truthy (i_phone iv) \<Longrightarrow>
   verified_otp d token = None \<Longrightarrow>
   join_team_via_invitation d token jd now = (d, Inl (HTTPException 400 OTP_required))"
  by (simp add: join_team_via_invitation_def)

lemma join_no_team:
  "get_invitation_by_token d token = Some iv \<Longrightarrow> \<not> i_is_used iv \<Longrightarrow>
   \<not> is_expired now (i_expires_at iv) \<Longrightarrow> truthy (i_phone iv) \<longrightarrow> verified_otp d token \<noteq> None \<Longrightarrow>
   get_team_by_id d (i_team_id iv) = None \<Longrightarrow>
   join_team_via_invitation d token jd now = (d, Inl AttributeError)"
  by (auto simp add: join_team_via_invitation_def)

lemma join_full:
  "get_invitation_by_token d token = Some iv \<Longrightarrow> \<not> i_is_used iv \<Longrightarrow>
   \<not> is_expired now (i_expires_at iv) \<Longrightarrow> truthy (i_phone iv) \<longrightarrow> verified_otp d token \<noteq> None \<Longrightarrow>
   get_team_by_id d (i_team_id iv) = Some t \<Longrightarrow>
   int (count_members d (i_team_id iv)) \<ge> t_max_members t \<Longrightarrow>
   join_team_via_invitation d token jd now =
     (d, Inl (HTTPException 400 (Team_is_full (t_max_members t))))"
  by (auto simp add: join_team_via_invitation_def)

lemma join_success:
  "get_invitation_by_token d token = Some iv \<Longrightarrow> \<not> i_is_used iv \<Longrightarrow>
   \<not> is_expired now (i_expires_at iv) \<Longrightarrow> truthy (i_phone iv) \<longrightarrow> verified_otp d token \<noteq> None \<Longrightarrow>
   get_team_by_id d (i_team_id iv) = Some t \<Longrightarrow>
   int (count_members d (i_team_id iv)) < t_max_members t \<Longrightarrow>
   join_team_via_invitation d token jd now =
     (d\<lparr>members := members d @ [join_member d iv jd],
        invitations := map (\<lambda>i. if i_id i = i_id iv then i\<lparr>i_is_used := True\<rparr> else i) (invitations d)\<rparr>,
      Inr (join_member d iv jd))"
  by (auto simp add: join_team_via_invitation_def join_commit_close)

lemma join_Inr_cases:
  assumes "snd (join_team_via_invitation d token jd now) = Inr r"
  obtains iv t where "get_invitation_by_token d token = Some iv" "\<not> i_is_used iv"
    "\<not> is_expired now (i_expires_at iv)" "truthy (i_phone iv) \<longrightarrow> verified_otp d token \<noteq> None"
    "get_team_by_id d (i_team_id iv) = Some t"
    "int (count_members d (i_team_id iv)) < t_max_members t"
    "r = join_member d iv jd"
  using assms
  by (auto simp add: join_team_via_invitation_def Let_def split: option.splits if_splits)

lemma join_Inl_unchanged:
  "snd (join_team_via_invitation d token jd now) = Inl e \<Longrightarrow>
   fst (join_team_via_invitation d token jd now) = d"
  by (auto simp add: join_team_via_invitation_def Let_def split: option.splits if_splits)

lemma add_not_found:
  "get_team_by_id d team_id = None \<Longrightarrow>
   add_team_member d team_id m = (d, Inl (HTTPException 404 Team_not_found))"
  by (simp add: add_team_member_def)

lemma add_full:
  "get_team_by_id d team_id = Some t \<Longrightarrow> int (count_members d team_id) \<ge> t_max_members t \<Longrightarrow>
   add_team_member d team_id m = (d, Inl (HTTPException 400 (Team_is_full (t_max_members t))))"
  by (simp add: add_team_member_def)

lemma add_success:
  "get_team_by_id d team_id = Some t \<Longrightarrow> int (count_members d team_id) < t_max_members t \<Longrightarrow>
   find (\<lambda>x. m_team_id x = team_id \<and> m_email x = mc_email m) (members d) = None \<Longrightarrow>
   add_team_member d team_id m =
     (d\<lparr>members := members d @
          [\<lparr>m_id = next_id (map m_id (members d)), m_team_id = team_id, m_name = mc_name m,
            m_email = mc_email m, m_phone = None, m_role = mc_role m\<rparr>]\<rparr>,
      Inr \<lparr>m_id = next_id (map m_id (members d)), m_team_id = team_id, m_name = mc_name m,
            m_email = mc_email m, m_phone = None, m_role = mc_role m\<rparr>)"
  by (simp add: add_team_member_def session_defs Let_def)

lemma add_Inr_cases:
  assumes "snd (add_team_member d team_id m) = Inr r"
  obtains t where "get_team_by_id d team_id = Some t"
    "int (count_members d team_id) < t_max_members t"
    "find (\<lambda>x. m_team_id x = team_id \<and> m_email x = mc_email m) (members d) = None"
    "r = \<lparr>m_id = next_id (map m_id (members d)), m_team_id = team_id, m_name = mc_name m,
            m_email = mc_email m, m_phone = None, m_role = mc_role m\<rparr>"
  using assms
  by (auto simp add: add_team_member_def Let_def split: option.splits if_splits)

lemma add_Inl_unchanged:
  "snd (add_team_member d team_id m) = Inl e \<Longrightarrow> fst (add_team_member d team_id m) = d"
  by (auto simp add: add_team_member_def Let_def split: option.splits if_splits)

lemma get_invitation_by_token_mem:
  "get_invitation_by_token d token = Some iv \<Longrightarrow> iv \<in> set (invitations d) \<and> i_token iv = token"
  by (auto simp add: get_invitation_by_token_def find_Some_iff)

lemma get_invitation_by_token_unique:
  "distinct (map i_token (invitations d)) \<Longrightarrow> iv \<in> set (invitations d) \<Longrightarrow>
   get_invitation_by_token d (i_token iv) = Some iv"
proof -
  have "distinct (map i_token xs) \<Longrightarrow> iv \<in> set xs \<Longrightarrow>
        find (\<lambda>i. i_token i = i_token iv) xs = Some iv" for xs
    by (induction xs) auto
  then show "distinct (map i_token (invitations d)) \<Longrightarrow> iv \<in> set (invitations d) \<Longrightarrow>
   get_invitation_by_token d (i_token iv) = Some iv"
    by (simp add: get_invitation_by_token_def)
qed

lemma full_db_lookups:
  "get_invitation_by_token full_db ''tokbob'' = Some inv_bob"
  "get_invitation_by_token full_db ''tokdave'' = Some inv_dave"
  "get_invitation_by_token full_db ''tokerin'' = Some inv_erin"
  "get_invitation_by_token full_db ''tokfrank'' = Some inv_frank"
  "get_invitation_by_token full_db ''tokgina'' = Some inv_gina"
  "get_invitation_by_token full_db ''nosuchtoken'' = None"
  "get_team_by_id full_db 1 = Some team1"
  "count_members full_db 1 = 1"
  "verified_otp full_db ''tokbob'' = Some otp_bob"
  "verified_otp full_db ''tokgina'' = None"
  by (simp_all add: get_invitation_by_token_def get_team_by_id_def count_members_def
      verified_otp_def example_defs)

lemma roomy_db_lookups:
  "get_invitation_by_token roomy_db ''tokbob'' = Some inv_bob"
  "get_invitation_by_token roomy_db ''tokdave'' = Some inv_dave"
  "get_invitation_by_token roomy_db ''tokerin'' = Some inv_erin"
  "get_invitation_by_token roomy_db ''tokfrank'' = Some inv_frank"
  "get_invitation_by_token roomy_db ''tokgina'' = Some inv_gina"
  "get_team_by_id roomy_db 1 = Some (team1\<lparr>t_max_members := 5\<rparr>)"
  "count_members roomy_db 1 = 1"
  "verified_otp roomy_db ''tokbob'' = Some otp_bob"
  "verified_otp roomy_db ''tokgina'' = None"
  by (simp_all add: get_invitation_by_token_def get_team_by_id_def count_members_def
      verified_otp_def example_defs)

lemma join_Inl_or_Inr:
  "(fst (join_team_via_invitation d token jd now) = d \<and>
    isl (snd (join_team_via_invitation d token jd now))) \<or>
   (\<exists>iv. get_invitation_by_token d token = Some iv \<and>
      join_team_via_invitation d token jd now =
        (db_close (run_ops (join_writes d iv jd) (session_begin d)), Inr (join_member d iv jd)))"
  by (auto simp add: join_team_via_invitation_def Let_def split: option.splits)

text \<open>What each endpoint does to the invitation table.\<close>

lemma format_phone_number_nonempty: "format_phone_number isdigit p \<noteq> []"
  by (simp add: format_phone_number_def)

lemma create_team_invitations: "invitations (fst (create_team d t)) = invitations d"
  by (simp add: create_team_def session_defs Let_def split: option.splits)

lemma update_team_invitations: "invitations (fst (update_team d tid u)) = invitations d"
  by (simp add: update_team_def session_defs Let_def split: option.splits)

lemma delete_team_invitations:
  "invitations (fst (delete_team d tid)) = invitations d \<or>
   invitations (fst (delete_team d tid)) = filter (\<lambda>i. i_team_id i \<noteq> tid) (invitations d)"
  by (simp add: delete_team_def session_defs Let_def split: option.splits)

lemma add_team_member_invitations: "invitations (fst (add_team_member d tid m)) = invitations d"
  by (simp add: add_team_member_def session_defs Let_def split: option.splits)

lemma remove_team_member_invitations:
  "invitations (fst (remove_team_member d tid mid)) = invitations d"
  by (simp add: remove_team_member_def session_defs Let_def split: option.splits)

lemma resend_otp_invitations: "invitations (fst (resend_otp d token e)) = invitations d"
  by (simp add: resend_otp_def session_defs Let_def split: option.splits)

lemma verify_otp_invitations: "invitations (fst (verify_otp d od now)) = invitations d"
  by (simp add: verify_otp_def session_defs Let_def split: option.splits)

lemma create_invitation_invitations:
  "invitations (fst (create_invitation d tid ic e)) = invitations d \<or>
   (\<exists>i. invitations (fst (create_invitation d tid ic e)) = invitations d @ [i] \<and>
        i_token i \<notin> set (map i_token (invitations d)) \<and> \<not> i_is_used i \<and>
        i_phone i \<noteq> Some [])"
  by (simp add: create_invitation_def session_defs Let_def format_phone_number_nonempty
      split: option.splits)

lemma join_invitations:
  "invitations (fst (join_team_via_invitation d token jd now)) = invitations d \<or>
   (\<exists>iv. iv \<in> set (invitations d) \<and>
      invitations (fst (join_team_via_invitation d token jd now)) =
        map (\<lambda>i. if i_id i = i_id iv then i\<lparr>i_is_used := True\<rparr> else i) (invitations d))"
  using join_Inl_or_Inr [of d token jd now]
  by (auto simp add: join_commit_close dest: get_invitation_by_token_mem)

lemma step_invitations:
  "invitations (step d r) = invitations d \<or>
   (\<exists>tid. r = Delete_team tid \<and>
      invitations (step d r) = filter (\<lambda>i. i_team_id i \<noteq> tid) (invitations d)) \<or>
   (\<exists>i. invitations (step d r) = invitations d @ [i] \<and>
        i_token i \<notin> set (map i_token (invitations d)) \<and> \<not> i_is_used i \<and>
        i_phone i \<noteq> Some []) \<or>
   (\<exists>iv. iv \<in> set (invitations d) \<and>
      invitations (step d r) =
        map (\<lambda>i. if i_id i = i_id iv then i\<lparr>i_is_used := True\<rparr> else i) (invitations d))"
proof (cases r)
  case (Create_team t)
  then show ?thesis by (simp add: create_team_invitations)
next
  case (Update_team tid u)
  then show ?thesis by (simp add: update_team_invitations)
next
  case (Delete_team tid)
  then show ?thesis using delete_team_invitations [of d tid] by auto
next
  case (Add_team_member tid m)
  then show ?thesis by (simp add: add_team_member_invitations)
next
  case (Remove_team_member tid mid)
  then show ?thesis by (simp add: remove_team_member_invitations)
next
  case (Create_invitation tid ic e)
  then show ?thesis using create_invitation_invitations [of d tid ic e] by auto
next
  case (Resend_otp token e)
  then show ?thesis by (simp add: resend_otp_invitations)
next
  case (Verify_otp od now)
  then show ?thesis by (simp add: verify_otp_invitations)
next
  case (Join token jd now)
  then show ?thesis using join_invitations [of d token jd now] by auto
qed

lemma token_mark_used:
  "i_token \<circ> (\<lambda>i. if i_id i = k then i\<lparr>i_is_used := True\<rparr> else i) = i_token"
  by (auto simp add: fun_eq_iff)

lemma step_invitations_cases:
  obtains (same) "invitations (step d r) = invitations d"
  | (deleted) tid where "r = Delete_team tid"
      "invitations (step d r) = filter (\<lambda>i. i_team_id i \<noteq> tid) (invitations d)"
  | (created) i where "invitations (step d r) = invitations d @ [i]"
      "i_token i \<notin> set (map i_token (invitations d))" "\<not> i_is_used i" "i_phone i \<noteq> Some []"
  | (joined) iv where "iv \<in> set (invitations d)"
      "invitations (step d r) =
         map (\<lambda>i. if i_id i = i_id iv then i\<lparr>i_is_used := True\<rparr> else i) (invitations d)"
  using step_invitations [of d r] by blast

lemma step_tokens_unique:
  assumes "tokens_unique d"
  shows "tokens_unique (step d r)"
proof (cases rule: step_invitations_cases [of d r])
  case same
  with assms show ?thesis by (simp add: tokens_unique_def)
next
  case (deleted tid)
  with assms show ?thesis by (simp add: tokens_unique_def distinct_map_filter)
next
  case (created i)
  with assms show ?thesis by (simp add: tokens_unique_def)
next
  case (joined iv)
  with assms show ?thesis by (simp add: tokens_unique_def token_mark_used)
qed

lemma run_tokens_unique: "tokens_unique d \<Longrightarrow> tokens_unique (run d rs)"
  by (induction rs arbitrary: d) (simp_all add: step_tokens_unique)

lemma step_phones_formatted:
  assumes "phones_formatted d"
  shows "phones_formatted (step d r)"
proof (cases rule: step_invitations_cases [of d r])
  case same
  with assms show ?thesis by (simp add: phones_formatted_def)
next
  case (deleted tid)
  with assms show ?thesis by (simp add: phones_formatted_def list_all_iff)
next
  case (created i)
  with assms show ?thesis by (simp add: phones_formatted_def)
next
  case (joined iv)
  with assms show ?thesis by (auto simp add: phones_formatted_def list_all_iff)
qed

lemma run_phones_formatted: "phones_formatted d \<Longrightarrow> phones_formatted (run d rs)"
  by (induction rs arbitrary: d) (simp_all add: step_phones_formatted)

lemma reachable_run: "reachable d \<Longrightarrow> reachable (run d rs)"
  by (induction rs arbitrary: d) (simp_all add: reachable_step)

lemma reachable_invariants: "reachable d \<Longrightarrow> tokens_unique d \<and> phones_formatted d"
proof (induction rule: reachable.induct)
  case reachable_init
  show ?case by (simp add: empty_db_def tokens_unique_def phones_formatted_def)
next
  case (reachable_step d r)
  then show ?case by (simp add: step_tokens_unique step_phones_formatted)
qed

lemma step_keeps_used:
  assumes "iv \<in> set (invitations d)" "i_is_used iv"
  shows "iv \<in> set (invitations (step d r)) \<or> r = Delete_team (i_team_id iv)"
proof (cases rule: step_invitations_cases [of d r])
  case same
  with assms show ?thesis by simp
next
  case (deleted tid)
  with assms show ?thesis by auto
next
  case (created i)
  with assms show ?thesis by simp
next
  case (joined j)
  have "(if i_id iv = i_id j then iv\<lparr>i_is_used := True\<rparr> else iv) = iv"
    using assms(2) by simp
  with assms(1)
  have "iv \<in> (\<lambda>i. if i_id i = i_id j then i\<lparr>i_is_used := True\<rparr> else i) ` set (invitations d)"
    by (rule_tac x = iv in image_eqI) simp_all
  with joined show ?thesis by simp
qed

lemma run_keeps_used:
  "iv \<in> set (invitations d) \<Longrightarrow> i_is_used iv \<Longrightarrow> Delete_team (i_team_id iv) \<notin> set rs \<Longrightarrow>
   iv \<in> set (invitations (run d rs))"
proof (induction rs arbitrary: d)
  case Nil
  then show ?case by simp
next
  case (Cons r rs)
  from Cons.prems have "r \<noteq> Delete_team (i_team_id iv)" by auto
  with step_keeps_used [OF Cons.prems(1,2), of r] have "iv \<in> set (invitations (step d r))"
    by simp
  with Cons show ?case by simp
qed

lemma same_token_same_row:
  "tokens_unique d \<Longrightarrow> i \<in> set (invitations d) \<Longrightarrow> j \<in> set (invitations d) \<Longrightarrow>
   i_token i = i_token j \<Longrightarrow> i = j"
  by (simp add: tokens_unique_def distinct_map inj_on_def)

lemma step_used_token_stays_used:
  assumes "tokens_unique d" "iv \<in> set (invitations d)" "i_is_used iv"
    "i' \<in> set (invitations (step d r))" "i_token i' = i_token iv"
  shows "i_is_used i'"
proof -
  from step_keeps_used [OF assms(2,3), of r]
  show ?thesis
  proof
    assume "iv \<in> set (invitations (step d r))"
    moreover have "tokens_unique (step d r)" using assms(1) by (rule step_tokens_unique)
    ultimately have "i' = iv" using assms(4,5)
      by (simp add: same_token_same_row)
    with assms(3) show ?thesis by simp
  next
    assume "r = Delete_team (i_team_id iv)"
    then have "set (invitations (step d r)) \<subseteq> set (invitations d)"
      using delete_team_invitations [of d "i_team_id iv"] by auto
    with assms(4) have "i' \<in> set (invitations d)" by blast
    with assms(1,2,5) have "i' = iv"
      by (simp add: same_token_same_row)
    with assms(3) show ?thesis by simp
  qed
qed

lemma example_invariants:
  "tokens_unique full_db" "phones_formatted full_db"
  "tokens_unique roomy_db" "phones_formatted roomy_db"
  by (simp_all add: tokens_unique_def phones_formatted_def example_defs)

lemma example_rows:
  "inv_bob \<in> set (invitations full_db)" "inv_dave \<in> set (invitations full_db)"
  "inv_erin \<in> set (invitations full_db)" "inv_frank \<in> set (invitations full_db)"
  "inv_gina \<in> set (invitations full_db)"
  "inv_bob \<in> set (invitations roomy_db)" "inv_dave \<in> set (invitations roomy_db)"
  "inv_erin \<in> set (invitations roomy_db)" "inv_frank \<in> set (invitations roomy_db)"
  "inv_gina \<in> set (invitations roomy_db)"
  by (simp_all add: full_db_def roomy_db_def)

lemma example_fields:
  "i_token inv_bob = ''tokbob''" "i_token inv_dave = ''tokdave''" "i_token inv_erin = ''tokerin''"
  "i_token inv_frank = ''tokfrank''" "i_token inv_gina = ''tokgina''"
  "i_is_used inv_dave" "\<not> i_is_used inv_bob" "\<not> i_is_used inv_erin" "\<not> i_is_used inv_frank"
  "\<not> i_is_used inv_gina"
  "i_team_id inv_bob = 1" "i_team_id inv_dave = 1" "i_team_id inv_erin = 1"
  "i_team_id inv_frank = 1" "i_team_id inv_gina = 1"
  "i_expires_at inv_bob = 1000" "i_expires_at inv_dave = 1000" "i_expires_at inv_erin = 10"
  "i_expires_at inv_frank = 1000" "i_expires_at inv_gina = 1000"
  "i_phone inv_bob = Some ''+919876543210''" "i_phone inv_dave = None" "i_phone inv_erin = None"
  "i_phone inv_frank = None" "i_phone inv_gina = Some ''+14155550100''"
  by (simp_all add: example_defs)

text \<open>The join reads the OTP table only through \<open>verified_otp\<close>.\<close>

lemma verified_otp_None_iff:
  "verified_otp d token = None \<longleftrightarrow>
     \<not> (\<exists>v \<in> set (otps d). o_invitation_token v = token \<and> o_is_verified v)"
  by (auto simp add: verified_otp_def find_None_iff)

lemma verified_otp_expiry_irrelevant:
  "verified_otp (d\<lparr>otps := map (\<lambda>v. v\<lparr>o_expires_at := f v\<rparr>) (otps d)\<rparr>) token = None \<longleftrightarrow>
   verified_otp d token = None"
  by (auto simp add: verified_otp_None_iff)

lemma join_response_cong:
  assumes "invitations d' = invitations d" "teams d' = teams d" "members d' = members d"
    "verified_otp d' token = None \<longleftrightarrow> verified_otp d token = None"
  shows "snd (join_team_via_invitation d' token jd now) =
         snd (join_team_via_invitation d token jd now)"
  using assms
  by (simp add: join_team_via_invitation_def get_invitation_by_token_def get_team_by_id_def
      count_members_def join_member_def Let_def split: option.splits)

lemma join_without_phone:
  assumes "get_invitation_by_token d token = Some iv" "i_phone iv = None"
  shows "join_team_via_invitation (d\<lparr>otps := os\<rparr>) token jd now =
         ((fst (join_team_via_invitation d token jd now))\<lparr>otps := os\<rparr>,
          snd (join_team_via_invitation d token jd now))"
proof -
  have look: "get_invitation_by_token (d\<lparr>otps := os\<rparr>) token = Some iv"
    using assms(1) by (simp add: get_invitation_by_token_def)
  show ?thesis using assms look
    by (simp add: join_team_via_invitation_def truthy_def get_team_by_id_def count_members_def
        join_member_def join_commit_close Let_def split: option.splits)
qed

lemma join_never_otp_required:
  assumes "verified_otp d token \<noteq> None"
  shows "snd (join_team_via_invitation d token jd now) \<noteq> Inl (HTTPException 400 OTP_required)"
  using assms
  by (auto simp add: join_team_via_invitation_def Let_def split: option.splits)

text \<open>Member counts and capacity.\<close>

lemma get_team_by_id_mem:
  "get_team_by_id d team_id = Some t \<Longrightarrow> t \<in> set (teams d) \<and> t_id t = team_id"
  by (auto simp add: get_team_by_id_def find_Some_iff)

lemma get_team_by_id_unique:
  "team_ids_unique d \<Longrightarrow> t \<in> set (teams d) \<Longrightarrow> get_team_by_id d (t_id t) = Some t"
proof -
  have "distinct (map t_id xs) \<Longrightarrow> t \<in> set xs \<Longrightarrow> find (\<lambda>x. t_id x = t_id t) xs = Some t" for xs
    by (induction xs) auto
  then show "team_ids_unique d \<Longrightarrow> t \<in> set (teams d) \<Longrightarrow> get_team_by_id d (t_id t) = Some t"
    by (simp add: get_team_by_id_def team_ids_unique_def)
qed

lemma count_members_append:
  "members d' = members d @ [r] \<Longrightarrow>
   count_members d' k = (if m_team_id r = k then Suc (count_members d k) else count_members d k)"
  by (simp add: count_members_def)

lemma capacity_ok_append:
  assumes "team_ids_unique d" "capacity_ok d" "get_team_by_id d k = Some t"
    "int (count_members d k) < t_max_members t"
    "teams d' = teams d" "members d' = members d @ [r]" "m_team_id r = k"
  shows "capacity_ok d'"
proof -
  have "within_capacity d' t'" if "t' \<in> set (teams d)" for t'
  proof (cases "t_id t' = k")
    case True
    with assms(1,3) that have "t' = t"
      using get_team_by_id_unique [of d t'] by simp
    with assms(4,6,7) True show ?thesis
      by (simp add: within_capacity_def count_members_append)
  next
    case False
    from assms(2) that have "within_capacity d t'"
      by (simp add: capacity_ok_def list_all_iff)
    with assms(6,7) False show ?thesis
      by (simp add: within_capacity_def count_members_append)
  qed
  with assms(5) show ?thesis
    by (simp add: capacity_ok_def list_all_iff)
qed

lemma add_preserves_capacity:
  assumes "team_ids_unique d" "capacity_ok d"
  shows "capacity_ok (fst (add_team_member d team_id member))"
proof (cases "snd (add_team_member d team_id member)")
  case (Inl e)
  then have "fst (add_team_member d team_id member) = d" by (rule add_Inl_unchanged)
  with assms(2) show ?thesis by simp
next
  case (Inr r)
  then show ?thesis
  proof (rule add_Inr_cases)
    fix t
    assume t: "get_team_by_id d team_id = Some t"
      and room: "int (count_members d team_id) < t_max_members t"
      and nodup: "find (\<lambda>x. m_team_id x = team_id \<and> m_email x = mc_email member) (members d) = None"
      and r: "r = \<lparr>m_id = next_id (map m_id (members d)), m_team_id = team_id,
                   m_name = mc_name member, m_email = mc_email member, m_phone = None,
                   m_role = mc_role member\<rparr>"
    from t room nodup r
    have eq: "fst (add_team_member d team_id member) = d\<lparr>members := members d @ [r]\<rparr>"
      by (simp add: add_success)
    from r have k: "m_team_id r = team_id" by simp
    have "capacity_ok (d\<lparr>members := members d @ [r]\<rparr>)"
    proof (rule capacity_ok_append [OF assms t room _ _ k])
      show "teams (d\<lparr>members := members d @ [r]\<rparr>) = teams d" by simp
      show "members (d\<lparr>members := members d @ [r]\<rparr>) = members d @ [r]" by simp
    qed
    with eq show ?thesis by simp
  qed
qed

lemma join_preserves_capacity:
  assumes "team_ids_unique d" "capacity_ok d"
  shows "capacity_ok (fst (join_team_via_invitation d token jd now))"
proof (cases "snd (join_team_via_invitation d token jd now)")
  case (Inl e)
  then have "fst (join_team_via_invitation d token jd now) = d" by (rule join_Inl_unchanged)
  with assms(2) show ?thesis by simp
next
  case (Inr r)
  then show ?thesis
  proof (rule join_Inr_cases)
    fix iv t
    assume look: "get_invitation_by_token d token = Some iv"
      and ok: "\<not> i_is_used iv" "\<not> is_expired now (i_expires_at iv)"
        "truthy (i_phone iv) \<longrightarrow> verified_otp d token \<noteq> None"
      and t: "get_team_by_id d (i_team_id iv) = Some t"
      and room: "int (count_members d (i_team_id iv)) < t_max_members t"
      and r: "r = join_member d iv jd"
    let ?d' = "d\<lparr>members := members d @ [join_member d iv jd],
        invitations := map (\<lambda>i. if i_id i = i_id iv then i\<lparr>i_is_used := True\<rparr> else i)
                           (invitations d)\<rparr>"
    from look ok t room
    have eq: "fst (join_team_via_invitation d token jd now) = ?d'"
      by (simp add: join_success)
    have k: "m_team_id (join_member d iv jd) = i_team_id iv"
      by (simp add: join_member_def)
    have "capacity_ok ?d'"
    proof (rule capacity_ok_append [OF assms t room _ _ k])
      show "teams ?d' = teams d" by simp
      show "members ?d' = members d @ [join_member d iv jd]" by simp
    qed
    with eq show ?thesis by simp
  qed
qed

lemma reachable_shrink: "reachable (run empty_db shrink_requests)"
  by (rule reachable_run) (rule reachable_init)







text \<open>The primary key of the team table stays a key.\<close>

lemma next_id_fresh: "next_id ids \<notin> set ids"
proof
  assume a: "next_id ids \<in> set ids"
  then have "ids \<noteq> []" by auto
  with a have "Max (set ids) + 1 \<in> set ids"
    by (simp add: next_id_def)
  then have "Max (set ids) + 1 \<le> Max (set ids)"
    by (rule Max_ge [OF finite_set])
  then show False by simp
qed

lemma apply_team_update_id: "t_id (apply_team_update u t) = t_id t"
  by (simp add: apply_team_update_def Let_def split: option.splits)

lemma create_team_teams:
  "teams (fst (create_team d t)) = teams d \<or>
   (\<exists>x. teams (fst (create_team d t)) = teams d @ [x] \<and> t_id x = next_id (map t_id (teams d)))"
  by (simp add: create_team_def session_defs Let_def split: option.splits)

lemma update_team_teams:
  "map t_id (teams (fst (update_team d tid u))) = map t_id (teams d)"
  by (simp add: update_team_def session_defs Let_def apply_team_update_id comp_def
      split: option.splits cong: map_cong)

lemma delete_team_teams:
  "teams (fst (delete_team d tid)) = teams d \<or>
   teams (fst (delete_team d tid)) = filter (\<lambda>t. t_id t \<noteq> tid) (teams d)"
  by (simp add: delete_team_def session_defs Let_def split: option.splits)

lemma add_team_member_teams: "teams (fst (add_team_member d tid m)) = teams d"
  by (simp add: add_team_member_def session_defs Let_def split: option.splits)

lemma remove_team_member_teams: "teams (fst (remove_team_member d tid mid)) = teams d"
  by (simp add: remove_team_member_def session_defs Let_def split: option.splits)

lemma create_invitation_teams: "teams (fst (create_invitation d tid ic e)) = teams d"
  by (simp add: create_invitation_def session_defs Let_def split: option.splits)

lemma resend_otp_teams: "teams (fst (resend_otp d token e)) = teams d"
  by (simp add: resend_otp_def session_defs Let_def split: option.splits)

lemma verify_otp_teams: "teams (fst (verify_otp d od now)) = teams d"
  by (simp add: verify_otp_def session_defs Let_def split: option.splits)

lemma join_teams: "teams (fst (join_team_via_invitation d token jd now)) = teams d"
  using join_Inl_or_Inr [of d token jd now]
  by (auto simp add: join_commit_close)

lemma step_team_ids_unique:
  assumes "team_ids_unique d"
  shows "team_ids_unique (step d r)"
proof (cases r)
  case (Create_team t)
  with assms create_team_teams [of d t] next_id_fresh [of "map t_id (teams d)"]
  show ?thesis by (auto simp add: team_ids_unique_def)
next
  case (Update_team tid u)
  with assms show ?thesis by (simp add: team_ids_unique_def update_team_teams)
next
  case (Delete_team tid)
  with assms delete_team_teams [of d tid]
  show ?thesis by (auto simp add: team_ids_unique_def distinct_map_filter)
next
  case (Add_team_member tid m)
  with assms show ?thesis by (simp add: team_ids_unique_def add_team_member_teams)
next
  case (Remove_team_member tid mid)
  with assms show ?thesis by (simp add: team_ids_unique_def remove_team_member_teams)
next
  case (Create_invitation tid ic e)
  with assms show ?thesis by (simp add: team_ids_unique_def create_invitation_teams)
next
  case (Resend_otp token e)
  with assms show ?thesis by (simp add: team_ids_unique_def resend_otp_teams)
next
  case (Verify_otp od now)
  with assms show ?thesis by (simp add: team_ids_unique_def verify_otp_teams)
next
  case (Join token jd now)
  with assms show ?thesis by (simp add: team_ids_unique_def join_teams)
qed

lemma reachable_team_ids_unique: "reachable d \<Longrightarrow> team_ids_unique d"
proof (induction rule: reachable.induct)
  case reachable_init
  show ?case by (simp add: empty_db_def team_ids_unique_def)
next
  case (reachable_step d r)
  then show ?case by (simp add: step_team_ids_unique)
qed

section \<open>The claims\<close>

subsection \<open>C3: the order of the checks of a join\<close>

text \<open>
  Claim C3. The join evaluates its checks in this order: invitation lookup (not found),
  then \<open>is_used\<close>, then expiry, then OTP verification (only when the phone is set), then
  team capacity, then the insertion of the member and the consumption of the invitation.
  Each line below gives the outcome of one check under the assumption that the earlier
  ones passed, whatever the later ones would say: a used or expired invitation is
  reported as such also when the team is full, and an unused, unexpired, OTP-satisfied
  invitation to a full team is answered "Team is full".
\<close>

theorem join_check_order:
  "(get_invitation_by_token d token = None \<longrightarrow>
      join_team_via_invitation d token jd now = (d, Inl (HTTPException 404 Invitation_not_found))) \<and>
   (\<forall>iv. get_invitation_by_token d token = Some iv \<longrightarrow>
      (i_is_used iv \<longrightarrow>
         join_team_via_invitation d token jd now = (d, Inl (HTTPException 400 Invitation_used))) \<and>
      (\<not> i_is_used iv \<and> is_expired now (i_expires_at iv) \<longrightarrow>
         join_team_via_invitation d token jd now = (d, Inl (HTTPException 400 Invitation_expired))) \<and>
      (\<not> i_is_used iv \<and> \<not> is_expired now (i_expires_at iv) \<and> truthy (i_phone iv) \<and>
       verified_otp d token = None \<longrightarrow>
         join_team_via_invitation d token jd now = (d, Inl (HTTPException 400 OTP_required))) \<and>
      (\<not> i_is_used iv \<and> \<not> is_expired now (i_expires_at iv) \<and>
       (truthy (i_phone iv) \<longrightarrow> verified_otp d token \<noteq> None) \<longrightarrow>
         (\<forall>t. get_team_by_id d (i_team_id iv) = Some t \<longrightarrow>
            (int (count_members d (i_team_id iv)) \<ge> t_max_members t \<longrightarrow>
               join_team_via_invitation d token jd now =
                 (d, Inl (HTTPException 400 (Team_is_full (t_max_members t))))) \<and>
            (int (count_members d (i_team_id iv)) < t_max_members t \<longrightarrow>
               join_team_via_invitation d token jd now =
                 (d\<lparr>members := members d @ [join_member d iv jd],
                    invitations := map (\<lambda>i. if i_id i = i_id iv then i\<lparr>i_is_used := True\<rparr> else i)
                                       (invitations d)\<rparr>,
                  Inr (join_member d iv jd))))))"
  using join_not_found join_used join_expired join_otp_required join_full join_success
  by (intro conjI allI impI) (simp_all)

theorem join_check_order_witness:
  "join_team_via_invitation full_db ''nosuchtoken'' jd0 100 =
     (full_db, Inl (HTTPException 404 Invitation_not_found)) \<and>
   join_team_via_invitation full_db ''tokdave'' jd0 100 =
     (full_db, Inl (HTTPException 400 Invitation_used)) \<and>
   join_team_via_invitation full_db ''tokerin'' jd0 100 =
     (full_db, Inl (HTTPException 400 Invitation_expired)) \<and>
   join_team_via_invitation full_db ''tokgina'' jd0 100 =
     (full_db, Inl (HTTPException 400 OTP_required)) \<and>
   join_team_via_invitation full_db ''tokbob'' jd0 100 =
     (full_db, Inl (HTTPException 400 (Team_is_full 1))) \<and>
   join_team_via_invitation full_db ''tokfrank'' jd0 100 =
     (full_db, Inl (HTTPException 400 (Team_is_full 1))) \<and>
   snd (join_team_via_invitation roomy_db ''tokfrank'' jd0 100) =
     Inr (join_member roomy_db inv_frank jd0)"
proof -
  have used: "i_is_used inv_dave" and unused: "\<not> i_is_used inv_erin" "\<not> i_is_used inv_gina"
      "\<not> i_is_used inv_bob" "\<not> i_is_used inv_frank"
    and expired: "is_expired 100 (i_expires_at inv_erin)"
    and unexpired: "\<not> is_expired 100 (i_expires_at inv_gina)"
      "\<not> is_expired 100 (i_expires_at inv_bob)" "\<not> is_expired 100 (i_expires_at inv_frank)"
    and phone: "truthy (i_phone inv_gina)" "truthy (i_phone inv_bob)" "\<not> truthy (i_phone inv_frank)"
    and cap: "int (count_members full_db (i_team_id inv_bob)) \<ge> t_max_members team1"
      "t_max_members team1 = 1" "i_team_id inv_bob = 1" "i_team_id inv_frank = 1"
    by (simp_all add: is_expired_def truthy_def count_members_def example_defs)
  show ?thesis
    using join_check_order [of full_db "''nosuchtoken''" jd0 100]
      join_check_order [of full_db "''tokdave''" jd0 100]
      join_check_order [of full_db "''tokerin''" jd0 100]
      join_check_order [of full_db "''tokgina''" jd0 100]
      join_check_order [of full_db "''tokbob''" jd0 100]
      join_check_order [of full_db "''tokfrank''" jd0 100]
      join_check_order [of roomy_db "''tokfrank''" jd0 100]
      used unused expired unexpired phone cap
    by (simp add: full_db_lookups roomy_db_lookups)
qed

subsection \<open>C10: format_phone_number\<close>

text \<open>
  Claim C10. For every input string, \<open>format_phone_number\<close> returns a plus sign followed
  by the digit characters of the input, in their order, where a digit character is what
  \<^verbatim>\<open>str.isdigit\<close> accepts; this holds for every input, so the branch taken on the leading
  plus sign makes no difference. The plus sign is not a digit character, hence the
  function is idempotent. Both hold for every predicate in the place of \<^verbatim>\<open>str.isdigit\<close>
  that rejects the plus sign.
\<close>

theorem format_phone_number_idempotent:
  "format_phone_number isdigit phone = CHR ''+'' # filter isdigit phone \<and>
   (\<not> isdigit CHR ''+'' \<longrightarrow>
      format_phone_number isdigit (format_phone_number isdigit phone) =
        format_phone_number isdigit phone)"
  by (simp add: format_phone_number_def)

theorem format_phone_number_idempotent_witness:
  "\<not> latin1_isdigit CHR ''+'' \<and>
   format_phone_number latin1_isdigit [CHR ''1'', CHR 0xB2, CHR ''3''] =
     [CHR ''+'', CHR ''1'', CHR 0xB2, CHR ''3''] \<and>
   format_phone_number latin1_isdigit ''(415) 555 0100'' = ''+4155550100'' \<and>
   format_phone_number latin1_isdigit
       (format_phone_number latin1_isdigit [CHR ''1'', CHR 0xB2, CHR ''3'']) =
     format_phone_number latin1_isdigit [CHR ''1'', CHR 0xB2, CHR ''3''] \<and>
   format_phone_number latin1_isdigit (format_phone_number latin1_isdigit ''+91 98765-43210'') =
     format_phone_number latin1_isdigit ''+91 98765-43210''"
proof -
  have plus: "\<not> latin1_isdigit CHR ''+''"
    by code_simp
  have e: "format_phone_number latin1_isdigit [CHR ''1'', CHR 0xB2, CHR ''3''] =
     [CHR ''+'', CHR ''1'', CHR 0xB2, CHR ''3'']"
    "format_phone_number latin1_isdigit ''(415) 555 0100'' = ''+4155550100''"
    by code_simp+
  from format_phone_number_idempotent [of latin1_isdigit "[CHR ''1'', CHR 0xB2, CHR ''3'']"] plus
  have i: "format_phone_number latin1_isdigit
       (format_phone_number latin1_isdigit [CHR ''1'', CHR 0xB2, CHR ''3'']) =
     format_phone_number latin1_isdigit [CHR ''1'', CHR 0xB2, CHR ''3'']"
    by blast
  from format_phone_number_idempotent [of latin1_isdigit "''+91 98765-43210''"] plus
  have j: "format_phone_number latin1_isdigit
       (format_phone_number latin1_isdigit ''+91 98765-43210'') =
     format_phone_number latin1_isdigit ''+91 98765-43210''"
    by blast
  from plus e i j show ?thesis by (intro conjI)
qed

subsection \<open>C8: a join commits its two writes together\<close>

text \<open>
  Claim C8. On a successful join the new member row and the invitation's \<open>is_used\<close> flag
  reach the database in one commit. The writes of a join hold one commit, and it is the
  last of them. If any write of the join raises, the commit itself included, the
  database is left as it was; wherever the join is cut, the database holds either
  neither change or both, never one without the other. Every join ends either with an
  error and the database unchanged, or with all its writes done: the member appended
  and the invitation marked used.
\<close>

theorem join_atomic:
  "Op_commit \<notin> set (butlast (join_writes d invitation jd)) \<and>
   last (join_writes d invitation jd) = Op_commit \<and>
   (\<forall>k. k < length (join_writes d invitation jd) \<longrightarrow>
      interrupted k (join_writes d invitation jd) d = d) \<and>
   (\<forall>k. interrupted k (join_writes d invitation jd) d = d \<or>
        interrupted k (join_writes d invitation jd) d =
          d\<lparr>members := members d @ [join_member d invitation jd],
            invitations := map (\<lambda>i. if i_id i = i_id invitation then i\<lparr>i_is_used := True\<rparr> else i)
                               (invitations d)\<rparr>) \<and>
   ((fst (join_team_via_invitation d token jd now) = d \<and>
     isl (snd (join_team_via_invitation d token jd now))) \<or>
    (\<exists>iv. get_invitation_by_token d token = Some iv \<and>
       join_team_via_invitation d token jd now =
         (interrupted (length (join_writes d iv jd)) (join_writes d iv jd) d,
          Inr (join_member d iv jd)) \<and>
       members (fst (join_team_via_invitation d token jd now)) =
         members d @ [join_member d iv jd] \<and>
       invitations (fst (join_team_via_invitation d token jd now)) =
         map (\<lambda>i. if i_id i = i_id iv then i\<lparr>i_is_used := True\<rparr> else i) (invitations d) \<and>
       iv\<lparr>i_is_used := True\<rparr> \<in> set (invitations (fst (join_team_via_invitation d token jd now))) \<and>
       teams (fst (join_team_via_invitation d token jd now)) = teams d \<and>
       otps (fst (join_team_via_invitation d token jd now)) = otps d))"
proof -
  have len: "length (join_writes d invitation jd) = 3"
    by (simp add: join_writes_def)
  have one: "Op_commit \<notin> set (butlast (join_writes d invitation jd))"
    "last (join_writes d invitation jd) = Op_commit"
    by (simp_all add: join_writes_def)
  have before: "interrupted k (join_writes d invitation jd) d = d"
    if "k < length (join_writes d invitation jd)" for k
    using that len by (simp add: join_interrupted_before_commit)
  have either: "interrupted k (join_writes d invitation jd) d = d \<or>
        interrupted k (join_writes d invitation jd) d =
          d\<lparr>members := members d @ [join_member d invitation jd],
            invitations := map (\<lambda>i. if i_id i = i_id invitation then i\<lparr>i_is_used := True\<rparr> else i)
                               (invitations d)\<rparr>" for k
  proof (cases "k < 3")
    case True
    then show ?thesis by (simp add: join_interrupted_before_commit)
  next
    case False
    with len have "length (join_writes d invitation jd) \<le> k" by simp
    then show ?thesis by (simp add: interrupted_all join_commit_close)
  qed
  have outcome: "(fst (join_team_via_invitation d token jd now) = d \<and>
     isl (snd (join_team_via_invitation d token jd now))) \<or>
    (\<exists>iv. get_invitation_by_token d token = Some iv \<and>
       join_team_via_invitation d token jd now =
         (interrupted (length (join_writes d iv jd)) (join_writes d iv jd) d,
          Inr (join_member d iv jd)) \<and>
       members (fst (join_team_via_invitation d token jd now)) =
         members d @ [join_member d iv jd] \<and>
       invitations (fst (join_team_via_invitation d token jd now)) =
         map (\<lambda>i. if i_id i = i_id iv then i\<lparr>i_is_used := True\<rparr> else i) (invitations d) \<and>
       iv\<lparr>i_is_used := True\<rparr> \<in> set (invitations (fst (join_team_via_invitation d token jd now))) \<and>
       teams (fst (join_team_via_invitation d token jd now)) = teams d \<and>
       otps (fst (join_team_via_invitation d token jd now)) = otps d)"
    using join_Inl_or_Inr [of d token jd now]
  proof
    assume "fst (join_team_via_invitation d token jd now) = d \<and>
            isl (snd (join_team_via_invitation d token jd now))"
    then show ?thesis by blast
  next
    assume "\<exists>iv. get_invitation_by_token d token = Some iv \<and>
      join_team_via_invitation d token jd now =
        (db_close (run_ops (join_writes d iv jd) (session_begin d)), Inr (join_member d iv jd))"
    then obtain iv where iv: "get_invitation_by_token d token = Some iv"
      and eq: "join_team_via_invitation d token jd now =
        (db_close (run_ops (join_writes d iv jd) (session_begin d)), Inr (join_member d iv jd))"
      by blast
    from iv have mem: "iv \<in> set (invitations d)"
      by (simp add: get_invitation_by_token_mem)
    have marked: "iv\<lparr>i_is_used := True\<rparr> \<in>
            (\<lambda>i. if i_id i = i_id iv then i\<lparr>i_is_used := True\<rparr> else i) ` set (invitations d)"
      using mem by (rule rev_image_eqI) simp
    have all: "interrupted (length (join_writes d iv jd)) (join_writes d iv jd) d =
        db_close (run_ops (join_writes d iv jd) (session_begin d))"
      by (simp add: interrupted_all)
    from iv eq marked all show ?thesis
      by (simp add: join_commit_close)
  qed
  from one before either outcome show ?thesis by blast
qed

theorem join_atomic_witness:
  "interrupted 0 (join_writes roomy_db inv_frank jd0) roomy_db = roomy_db \<and>
   interrupted 1 (join_writes roomy_db inv_frank jd0) roomy_db = roomy_db \<and>
   interrupted 2 (join_writes roomy_db inv_frank jd0) roomy_db = roomy_db \<and>
   fst (join_team_via_invitation full_db ''tokfrank'' jd0 100) = full_db \<and>
   members (fst (join_team_via_invitation roomy_db ''tokfrank'' jd0 100)) =
     [carol, join_member roomy_db inv_frank jd0] \<and>
   invitations (fst (join_team_via_invitation roomy_db ''tokfrank'' jd0 100)) =
     [inv_bob, inv_dave, inv_erin, inv_frank\<lparr>i_is_used := True\<rparr>, inv_gina]"
proof -
  note t = join_atomic [of roomy_db inv_frank jd0 "''tokfrank''" 100]
  have len: "(0::nat) < length (join_writes roomy_db inv_frank jd0)"
    "(1::nat) < length (join_writes roomy_db inv_frank jd0)"
    "(2::nat) < length (join_writes roomy_db inv_frank jd0)"
    by (simp_all add: join_writes_def)
  from t len have cut: "interrupted 0 (join_writes roomy_db inv_frank jd0) roomy_db = roomy_db"
    "interrupted 1 (join_writes roomy_db inv_frank jd0) roomy_db = roomy_db"
    "interrupted 2 (join_writes roomy_db inv_frank jd0) roomy_db = roomy_db"
    by blast+
  have l: "join_team_via_invitation full_db ''tokfrank'' jd0 100 =
     (full_db, Inl (HTTPException 400 (Team_is_full 1)))"
    by code_simp
  then have l': "fst (join_team_via_invitation full_db ''tokfrank'' jd0 100) = full_db"
    by simp
  have r: "snd (join_team_via_invitation roomy_db ''tokfrank'' jd0 100) =
     Inr (join_member roomy_db inv_frank jd0)"
    by code_simp
  have look: "get_invitation_by_token roomy_db ''tokfrank'' = Some inv_frank"
    by (rule roomy_db_lookups)
  from t r look
  have both: "members (fst (join_team_via_invitation roomy_db ''tokfrank'' jd0 100)) =
         members roomy_db @ [join_member roomy_db inv_frank jd0]"
    "invitations (fst (join_team_via_invitation roomy_db ''tokfrank'' jd0 100)) =
         map (\<lambda>i. if i_id i = i_id inv_frank then i\<lparr>i_is_used := True\<rparr> else i)
             (invitations roomy_db)"
    by auto
  have m: "members roomy_db = [carol]"
    "map (\<lambda>i. if i_id i = i_id inv_frank then i\<lparr>i_is_used := True\<rparr> else i) (invitations roomy_db)
      = [inv_bob, inv_dave, inv_erin, inv_frank\<lparr>i_is_used := True\<rparr>, inv_gina]"
    by (simp_all add: example_defs)
  from cut l' both [unfolded m] show ?thesis
    by simp
qed

subsection \<open>C9: the direct member-add discards the phone\<close>

text \<open>
  Claim C9. A member created by the direct member-add endpoint has no phone, whatever
  phone the request body carried, valid ones included; a member created by a join
  carries the phone of the invitation.
\<close>

theorem add_team_member_drops_phone:
  "(\<forall>r. snd (add_team_member d team_id member) = Inr r \<longrightarrow>
      m_phone r = None \<and> members (fst (add_team_member d team_id member)) = members d @ [r]) \<and>
   (\<forall>r. snd (join_team_via_invitation d token jd now) = Inr r \<longrightarrow>
      (\<exists>iv. get_invitation_by_token d token = Some iv \<and> m_phone r = i_phone iv \<and>
         members (fst (join_team_via_invitation d token jd now)) = members d @ [r]))"
proof (intro conjI allI impI)
  fix r assume a: "snd (add_team_member d team_id member) = Inr r"
  then show "m_phone r = None"
    by (rule add_Inr_cases) simp
  from a show "members (fst (add_team_member d team_id member)) = members d @ [r]"
    by (rule add_Inr_cases) (simp add: add_success)
next
  fix r assume a: "snd (join_team_via_invitation d token jd now) = Inr r"
  then show "\<exists>iv. get_invitation_by_token d token = Some iv \<and> m_phone r = i_phone iv \<and>
         members (fst (join_team_via_invitation d token jd now)) = members d @ [r]"
    by (rule join_Inr_cases) (simp add: join_success join_member_def)
qed

theorem add_team_member_drops_phone_witness:
  "phone_pattern ''+919876543210'' \<and>
   mc_phone dora = Some ''+919876543210'' \<and>
   snd (add_team_member roomy_db 1 dora) =
     Inr \<lparr>m_id = 2, m_team_id = 1, m_name = ''Dora'', m_email = ''dora@example.com'',
          m_phone = None, m_role = Some ''Designer''\<rparr> \<and>
   members (fst (add_team_member roomy_db 1 dora)) =
     [carol, \<lparr>m_id = 2, m_team_id = 1, m_name = ''Dora'', m_email = ''dora@example.com'',
          m_phone = None, m_role = Some ''Designer''\<rparr>] \<and>
   snd (join_team_via_invitation roomy_db ''tokbob'' jd0 100) =
     Inr \<lparr>m_id = 2, m_team_id = 1, m_name = ''Newcomer'', m_email = ''bob@example.com'',
          m_phone = Some ''+919876543210'', m_role = Some ''Developer''\<rparr>"
proof -
  have a: "snd (add_team_member roomy_db 1 dora) =
     Inr \<lparr>m_id = 2, m_team_id = 1, m_name = ''Dora'', m_email = ''dora@example.com'',
          m_phone = None, m_role = Some ''Designer''\<rparr>"
    by code_simp
  have j: "snd (join_team_via_invitation roomy_db ''tokbob'' jd0 100) =
     Inr \<lparr>m_id = 2, m_team_id = 1, m_name = ''Newcomer'', m_email = ''bob@example.com'',
          m_phone = Some ''+919876543210'', m_role = Some ''Developer''\<rparr>"
    by code_simp
  have p: "phone_pattern ''+919876543210''" "mc_phone dora = Some ''+919876543210''"
    "members roomy_db = [carol]"
    by (simp_all add: phone_pattern_def ascii_digit_def example_defs)
  show ?thesis
    using add_team_member_drops_phone [of roomy_db 1 dora "''tokbob''" jd0 100] a j p
    by simp
qed

subsection \<open>C2: a used invitation stays used\<close>

text \<open>
  Claim C2. For an invitation whose \<open>is_used\<close> is true, a join on its token fails with
  "This invitation has already been used" and leaves the database as it was, so no
  member is created. No request sets \<open>is_used\<close> back to false: after any request, every
  invitation that carries the token is used, and the row itself is still there unless
  the request deleted its team. The same holds after any sequence of requests that does
  not delete the team: the row is unchanged and a join on its token is still refused.
\<close>

theorem used_invitation_terminal:
  assumes "tokens_unique d" and "iv \<in> set (invitations d)" and "i_is_used iv"
  shows "join_team_via_invitation d (i_token iv) jd now =
           (d, Inl (HTTPException 400 Invitation_used)) \<and>
         (\<forall>r. \<forall>i' \<in> set (invitations (step d r)). i_token i' = i_token iv \<longrightarrow> i_is_used i') \<and>
         (\<forall>r. iv \<in> set (invitations (step d r)) \<or> r = Delete_team (i_team_id iv)) \<and>
         (\<forall>rs. Delete_team (i_team_id iv) \<notin> set rs \<longrightarrow>
            iv \<in> set (invitations (run d rs)) \<and>
            join_team_via_invitation (run d rs) (i_token iv) jd now =
              (run d rs, Inl (HTTPException 400 Invitation_used)))"
proof (intro conjI allI ballI impI)
  from assms(1,2) have "get_invitation_by_token d (i_token iv) = Some iv"
    by (simp add: tokens_unique_def get_invitation_by_token_unique)
  with assms(3) show "join_team_via_invitation d (i_token iv) jd now =
           (d, Inl (HTTPException 400 Invitation_used))"
    by (simp add: join_used)
next
  fix r i' assume "i' \<in> set (invitations (step d r))" "i_token i' = i_token iv"
  with assms show "i_is_used i'" by (rule step_used_token_stays_used)
next
  fix r show "iv \<in> set (invitations (step d r)) \<or> r = Delete_team (i_team_id iv)"
    using assms(2,3) by (rule step_keeps_used)
next
  fix rs assume nodel: "Delete_team (i_team_id iv) \<notin> set rs"
  with assms(2,3) show there: "iv \<in> set (invitations (run d rs))"
    by (rule run_keeps_used)
  from assms(1) have "tokens_unique (run d rs)" by (rule run_tokens_unique)
  with there have "get_invitation_by_token (run d rs) (i_token iv) = Some iv"
    by (simp add: tokens_unique_def get_invitation_by_token_unique)
  with assms(3) show "join_team_via_invitation (run d rs) (i_token iv) jd now =
              (run d rs, Inl (HTTPException 400 Invitation_used))"
    by (simp add: join_used)
qed

theorem used_invitation_terminal_witness:
  "tokens_unique full_db \<and> inv_dave \<in> set (invitations full_db) \<and> i_is_used inv_dave \<and>
   join_team_via_invitation full_db ''tokdave'' jd0 100 =
     (full_db, Inl (HTTPException 400 Invitation_used)) \<and>
   inv_dave \<in> set (invitations (run full_db [Join ''tokdave'' jd0 100, Delete_team 7,
      Verify_otp \<lparr>ov_invitation_token = ''tokgina'', ov_otp_code = ''654321''\<rparr> 100]))"
proof -
  have nodel: "Delete_team (i_team_id inv_dave) \<notin> set [Join ''tokdave'' jd0 100, Delete_team 7,
      Verify_otp \<lparr>ov_invitation_token = ''tokgina'', ov_otp_code = ''654321''\<rparr> 100]"
    by (simp add: example_fields)
  note t = used_invitation_terminal [OF example_invariants(1) example_rows(2) example_fields(6),
      of jd0 100]
  from t have j: "join_team_via_invitation full_db (i_token inv_dave) jd0 100 =
     (full_db, Inl (HTTPException 400 Invitation_used))"
    by (rule conjunct1)
  from t have "\<forall>rs. Delete_team (i_team_id inv_dave) \<notin> set rs \<longrightarrow>
      inv_dave \<in> set (invitations (run full_db rs))"
    by blast
  with nodel have r: "inv_dave \<in> set (invitations (run full_db [Join ''tokdave'' jd0 100,
      Delete_team 7,
      Verify_otp \<lparr>ov_invitation_token = ''tokgina'', ov_otp_code = ''654321''\<rparr> 100]))"
    by blast
  from example_invariants(1) example_rows(2) example_fields(6) j [unfolded example_fields(2)] r
  show ?thesis by (intro conjI)
qed

subsection \<open>C6: an expired invitation is rejected by join and by resend-OTP\<close>

text \<open>
  Claim C6. For an invitation whose \<open>expires_at\<close> is in the past (\<open>now > expires_at\<close>), the
  join and the resend-OTP both fail, whether the invitation is used or not, and leave
  the database as it was: no member is created, no OTP deleted or issued. The join
  answers "already used" for a used invitation and "expired" otherwise; the resend
  answers "no phone number" for an invitation without phone, then the same two.
\<close>

theorem expired_invitation_rejected:
  assumes "tokens_unique d" and "iv \<in> set (invitations d)" and "now > i_expires_at iv"
  shows "join_team_via_invitation d (i_token iv) jd now =
           (d, Inl (HTTPException 400
                 (if i_is_used iv then Invitation_used else Invitation_expired))) \<and>
         resend_otp d (i_token iv) (e\<lparr>utcnow1 := now\<rparr>) =
           (d, Inl (HTTPException 400
                 (if \<not> truthy (i_phone iv) then No_phone
                  else if i_is_used iv then Invitation_used else Invitation_expired)))"
proof -
  from assms(1,2) have look: "get_invitation_by_token d (i_token iv) = Some iv"
    by (simp add: tokens_unique_def get_invitation_by_token_unique)
  from assms(3) have exp: "is_expired now (i_expires_at iv)"
    by (simp add: is_expired_def)
  have j: "join_team_via_invitation d (i_token iv) jd now =
           (d, Inl (HTTPException 400
                 (if i_is_used iv then Invitation_used else Invitation_expired)))"
    using look exp by (simp add: join_team_via_invitation_def)
  have r: "resend_otp d (i_token iv) (e\<lparr>utcnow1 := now\<rparr>) =
           (d, Inl (HTTPException 400
                 (if \<not> truthy (i_phone iv) then No_phone
                  else if i_is_used iv then Invitation_used else Invitation_expired)))"
    using look exp by (simp add: resend_otp_def truthy_def split: option.splits)
  from j r show ?thesis by (rule conjI)
qed

theorem expired_invitation_rejected_witness:
  "tokens_unique full_db \<and> inv_erin \<in> set (invitations full_db) \<and>
   (100::int) > i_expires_at inv_erin \<and>
   join_team_via_invitation full_db ''tokerin'' jd0 100 =
     (full_db, Inl (HTTPException 400 Invitation_expired)) \<and>
   resend_otp full_db ''tokerin'' env0 = (full_db, Inl (HTTPException 400 No_phone)) \<and>
   join_team_via_invitation full_db ''tokgina'' jd0 2000 =
     (full_db, Inl (HTTPException 400 Invitation_expired)) \<and>
   resend_otp full_db ''tokgina'' (env0\<lparr>utcnow1 := 2000\<rparr>) =
     (full_db, Inl (HTTPException 400 Invitation_expired)) \<and>
   join_team_via_invitation full_db ''tokdave'' jd0 2000 =
     (full_db, Inl (HTTPException 400 Invitation_used))"
proof -
  have past: "(100::int) > i_expires_at inv_erin" "(2000::int) > i_expires_at inv_gina"
    "(2000::int) > i_expires_at inv_dave"
    by (simp_all add: example_fields)
  have env: "env0\<lparr>utcnow1 := 100\<rparr> = env0" by (simp add: example_defs)
  from expired_invitation_rejected [OF example_invariants(1) example_rows(3) past(1), of jd0 env0]
    expired_invitation_rejected [OF example_invariants(1) example_rows(5) past(2), of jd0 env0]
    expired_invitation_rejected [OF example_invariants(1) example_rows(2) past(3), of jd0 env0]
  show ?thesis
    by (simp add: env example_invariants example_rows example_fields truthy_def)
qed

subsection \<open>C4: the OTP gate of a join\<close>

text \<open>
  Claim C4. For an invitation whose phone is set, a join fails unless some OTP row with
  the invitation's token has \<open>is_verified\<close> true, and the failure is "OTP verification
  required" once the invitation is found unused and unexpired. A verified row lets the
  join through whatever its \<open>expires_at\<close>: the response of a join is the same under any
  change of the \<open>expires_at\<close> of the OTP rows. For an invitation whose phone is null the
  join does not look at the OTP table at all: with any other OTP table it gives the same
  response and the same writes.
\<close>

theorem join_otp_gate:
  assumes "tokens_unique d" and "phones_formatted d" and "iv \<in> set (invitations d)"
  shows "(\<forall>p. i_phone iv = Some p \<and>
              \<not> (\<exists>v \<in> set (otps d). o_invitation_token v = i_token iv \<and> o_is_verified v) \<longrightarrow>
            fst (join_team_via_invitation d (i_token iv) jd now) = d \<and>
            isl (snd (join_team_via_invitation d (i_token iv) jd now)) \<and>
            (\<not> i_is_used iv \<and> \<not> is_expired now (i_expires_at iv) \<longrightarrow>
               join_team_via_invitation d (i_token iv) jd now =
                 (d, Inl (HTTPException 400 OTP_required)))) \<and>
         (\<forall>p v. i_phone iv = Some p \<and> v \<in> set (otps d) \<and>
                o_invitation_token v = i_token iv \<and> o_is_verified v \<longrightarrow>
            snd (join_team_via_invitation d (i_token iv) jd now) \<noteq>
              Inl (HTTPException 400 OTP_required) \<and>
            (\<forall>t. \<not> i_is_used iv \<and> \<not> is_expired now (i_expires_at iv) \<and>
                 get_team_by_id d (i_team_id iv) = Some t \<and>
                 int (count_members d (i_team_id iv)) < t_max_members t \<longrightarrow>
               snd (join_team_via_invitation d (i_token iv) jd now) =
                 Inr (join_member d iv jd))) \<and>
         (\<forall>f. snd (join_team_via_invitation
                     (d\<lparr>otps := map (\<lambda>v. v\<lparr>o_expires_at := f v\<rparr>) (otps d)\<rparr>) (i_token iv) jd now) =
               snd (join_team_via_invitation d (i_token iv) jd now)) \<and>
         (i_phone iv = None \<longrightarrow>
            (\<forall>os. join_team_via_invitation (d\<lparr>otps := os\<rparr>) (i_token iv) jd now =
                    ((fst (join_team_via_invitation d (i_token iv) jd now))\<lparr>otps := os\<rparr>,
                     snd (join_team_via_invitation d (i_token iv) jd now))))"
proof -
  from assms(1,3) have look: "get_invitation_by_token d (i_token iv) = Some iv"
    by (simp add: tokens_unique_def get_invitation_by_token_unique)
  from assms(2,3) have nonempty: "i_phone iv \<noteq> Some []"
    by (simp add: phones_formatted_def list_all_iff)
  have part1: "fst (join_team_via_invitation d (i_token iv) jd now) = d \<and>
            isl (snd (join_team_via_invitation d (i_token iv) jd now)) \<and>
            (\<not> i_is_used iv \<and> \<not> is_expired now (i_expires_at iv) \<longrightarrow>
               join_team_via_invitation d (i_token iv) jd now =
                 (d, Inl (HTTPException 400 OTP_required)))"
    if "i_phone iv = Some p"
      and "\<not> (\<exists>v \<in> set (otps d). o_invitation_token v = i_token iv \<and> o_is_verified v)" for p
  proof -
    from that(1) nonempty have t: "truthy (i_phone iv)" by (simp add: truthy_def)
    from that(2) have v: "verified_otp d (i_token iv) = None"
      by (simp add: verified_otp_None_iff)
    from look t v show ?thesis
      by (simp add: join_team_via_invitation_def)
  qed
  have part2: "snd (join_team_via_invitation d (i_token iv) jd now) \<noteq>
              Inl (HTTPException 400 OTP_required) \<and>
            (\<forall>t. \<not> i_is_used iv \<and> \<not> is_expired now (i_expires_at iv) \<and>
                 get_team_by_id d (i_team_id iv) = Some t \<and>
                 int (count_members d (i_team_id iv)) < t_max_members t \<longrightarrow>
               snd (join_team_via_invitation d (i_token iv) jd now) =
                 Inr (join_member d iv jd))"
    if "v \<in> set (otps d)" and "o_invitation_token v = i_token iv" and "o_is_verified v" for v
  proof -
    from that have v: "verified_otp d (i_token iv) \<noteq> None"
      by (auto simp add: verified_otp_None_iff)
    then have a: "snd (join_team_via_invitation d (i_token iv) jd now) \<noteq>
              Inl (HTTPException 400 OTP_required)"
      by (rule join_never_otp_required)
    have b: "snd (join_team_via_invitation d (i_token iv) jd now) = Inr (join_member d iv jd)"
      if "\<not> i_is_used iv" "\<not> is_expired now (i_expires_at iv)"
        "get_team_by_id d (i_team_id iv) = Some t"
        "int (count_members d (i_team_id iv)) < t_max_members t" for t
      using look that v by (simp add: join_success)
    from a b show ?thesis by blast
  qed
  have part3: "snd (join_team_via_invitation
                     (d\<lparr>otps := map (\<lambda>v. v\<lparr>o_expires_at := f v\<rparr>) (otps d)\<rparr>) (i_token iv) jd now) =
               snd (join_team_via_invitation d (i_token iv) jd now)" for f
    by (rule join_response_cong) (simp_all add: verified_otp_expiry_irrelevant)
  have part4: "join_team_via_invitation (d\<lparr>otps := os\<rparr>) (i_token iv) jd now =
                    ((fst (join_team_via_invitation d (i_token iv) jd now))\<lparr>otps := os\<rparr>,
                     snd (join_team_via_invitation d (i_token iv) jd now))"
    if "i_phone iv = None" for os
    using look that by (rule join_without_phone)
  from part1 part2 part3 part4 show ?thesis by blast
qed

theorem join_otp_gate_witness:
  "tokens_unique roomy_db \<and> phones_formatted roomy_db \<and>
   join_team_via_invitation roomy_db ''tokgina'' jd0 100 =
     (roomy_db, Inl (HTTPException 400 OTP_required)) \<and>
   o_is_verified otp_bob \<and> is_expired 100 (o_expires_at otp_bob) \<and>
   snd (join_team_via_invitation roomy_db ''tokbob'' jd0 100) =
     Inr (join_member roomy_db inv_bob jd0) \<and>
   join_team_via_invitation (roomy_db\<lparr>otps := []\<rparr>) ''tokfrank'' jd0 100 =
     ((fst (join_team_via_invitation roomy_db ''tokfrank'' jd0 100))\<lparr>otps := []\<rparr>,
      snd (join_team_via_invitation roomy_db ''tokfrank'' jd0 100))"
proof -
  note gina = join_otp_gate [OF example_invariants(3) example_invariants(4) example_rows(10),
      of jd0 100]
  note bob = join_otp_gate [OF example_invariants(3) example_invariants(4) example_rows(6),
      of jd0 100]
  note frank = join_otp_gate [OF example_invariants(3) example_invariants(4) example_rows(9),
      of jd0 100]
  have g: "i_phone inv_gina = Some ''+14155550100''"
    "\<not> (\<exists>v \<in> set (otps roomy_db). o_invitation_token v = i_token inv_gina \<and> o_is_verified v)"
    "\<not> i_is_used inv_gina" "\<not> is_expired 100 (i_expires_at inv_gina)"
    by (simp_all add: example_defs is_expired_def)
  from gina g
  have 1: "join_team_via_invitation roomy_db (i_token inv_gina) jd0 100 =
     (roomy_db, Inl (HTTPException 400 OTP_required))"
    by blast
  have b: "i_phone inv_bob = Some ''+919876543210''" "otp_bob \<in> set (otps roomy_db)"
    "o_invitation_token otp_bob = i_token inv_bob" "o_is_verified otp_bob"
    "\<not> i_is_used inv_bob" "\<not> is_expired 100 (i_expires_at inv_bob)"
    "get_team_by_id roomy_db (i_team_id inv_bob) = Some (team1\<lparr>t_max_members := 5\<rparr>)"
    "int (count_members roomy_db (i_team_id inv_bob)) < t_max_members (team1\<lparr>t_max_members := 5\<rparr>)"
    "is_expired 100 (o_expires_at otp_bob)"
    by (simp_all add: example_fields roomy_db_lookups)
       (simp_all add: example_defs is_expired_def)
  from bob b
  have 2: "snd (join_team_via_invitation roomy_db (i_token inv_bob) jd0 100) =
     Inr (join_member roomy_db inv_bob jd0)"
    by blast
  from frank example_fields(24)
  have 3: "join_team_via_invitation (roomy_db\<lparr>otps := []\<rparr>) (i_token inv_frank) jd0 100 =
     ((fst (join_team_via_invitation roomy_db (i_token inv_frank) jd0 100))\<lparr>otps := []\<rparr>,
      snd (join_team_via_invitation roomy_db (i_token inv_frank) jd0 100))"
    by blast
  from example_invariants(3) example_invariants(4) 1 [unfolded example_fields(5)] b(4) b(9)
    2 [unfolded example_fields(1)] 3 [unfolded example_fields(4)]
  show ?thesis by (intro conjI)
qed

subsection \<open>C5: verify-OTP\<close>

text \<open>
  Claim C5. Verify-OTP succeeds only when an OTP row exists whose token and code equal
  the submitted ones, whose \<open>is_verified\<close> is false and whose \<open>expires_at\<close> has not passed;
  it then sets \<open>is_verified\<close> on that row. A submission that no unverified row matches is
  answered "Invalid OTP code". The invitation table is never touched.
\<close>

theorem verify_otp_matching_only:
  "(\<forall>b. snd (verify_otp d otp_data now) = Inr b \<longrightarrow>
      (\<exists>r \<in> set (otps d).
         o_invitation_token r = ov_invitation_token otp_data \<and>
         o_otp_code r = ov_otp_code otp_data \<and>
         \<not> o_is_verified r \<and> \<not> is_expired now (o_expires_at r) \<and>
         otps (fst (verify_otp d otp_data now)) =
           map (\<lambda>v. if o_id v = o_id r then v\<lparr>o_is_verified := True\<rparr> else v) (otps d) \<and>
         r\<lparr>o_is_verified := True\<rparr> \<in> set (otps (fst (verify_otp d otp_data now))))) \<and>
   ((\<forall>r \<in> set (otps d). \<not> (o_invitation_token r = ov_invitation_token otp_data \<and>
                             o_otp_code r = ov_otp_code otp_data \<and> \<not> o_is_verified r)) \<longrightarrow>
      verify_otp d otp_data now = (d, Inl (HTTPException 400 Invalid_OTP))) \<and>
   invitations (fst (verify_otp d otp_data now)) = invitations d \<and>
   teams (fst (verify_otp d otp_data now)) = teams d \<and>
   members (fst (verify_otp d otp_data now)) = members d"
proof (intro conjI allI impI)
  fix b assume ok: "snd (verify_otp d otp_data now) = Inr b"
  then obtain r where r: "find (\<lambda>v. o_invitation_token v = ov_invitation_token otp_data \<and>
                      o_otp_code v = ov_otp_code otp_data \<and>
                      o_is_verified v = False) (otps d) = Some r"
    and fresh: "\<not> is_expired now (o_expires_at r)"
    by (auto simp add: verify_otp_def Let_def split: option.splits if_splits)
  from r have mem: "r \<in> set (otps d)"
    and m: "o_invitation_token r = ov_invitation_token otp_data"
      "o_otp_code r = ov_otp_code otp_data" "\<not> o_is_verified r"
    by (auto simp add: find_Some_iff)
  from r fresh have upd: "otps (fst (verify_otp d otp_data now)) =
           map (\<lambda>v. if o_id v = o_id r then v\<lparr>o_is_verified := True\<rparr> else v) (otps d)"
    by (simp add: verify_otp_def session_defs)
  from mem have "r\<lparr>o_is_verified := True\<rparr> \<in>
      (\<lambda>v. if o_id v = o_id r then v\<lparr>o_is_verified := True\<rparr> else v) ` set (otps d)"
    by (rule rev_image_eqI) simp
  with upd have "r\<lparr>o_is_verified := True\<rparr> \<in> set (otps (fst (verify_otp d otp_data now)))"
    by simp
  with mem m fresh upd
  show "\<exists>r \<in> set (otps d).
         o_invitation_token r = ov_invitation_token otp_data \<and>
         o_otp_code r = ov_otp_code otp_data \<and>
         \<not> o_is_verified r \<and> \<not> is_expired now (o_expires_at r) \<and>
         otps (fst (verify_otp d otp_data now)) =
           map (\<lambda>v. if o_id v = o_id r then v\<lparr>o_is_verified := True\<rparr> else v) (otps d) \<and>
         r\<lparr>o_is_verified := True\<rparr> \<in> set (otps (fst (verify_otp d otp_data now)))"
    by blast
next
  assume "\<forall>r \<in> set (otps d). \<not> (o_invitation_token r = ov_invitation_token otp_data \<and>
                             o_otp_code r = ov_otp_code otp_data \<and> \<not> o_is_verified r)"
  then have "find (\<lambda>v. o_invitation_token v = ov_invitation_token otp_data \<and>
                      o_otp_code v = ov_otp_code otp_data \<and>
                      o_is_verified v = False) (otps d) = None"
    by (simp add: find_None_iff)
  then show "verify_otp d otp_data now = (d, Inl (HTTPException 400 Invalid_OTP))"
    by (simp add: verify_otp_def)
next
  show "invitations (fst (verify_otp d otp_data now)) = invitations d"
    by (rule verify_otp_invitations)
next
  show "teams (fst (verify_otp d otp_data now)) = teams d"
    by (simp add: verify_otp_def session_defs Let_def split: option.splits)
next
  show "members (fst (verify_otp d otp_data now)) = members d"
    by (simp add: verify_otp_def session_defs Let_def split: option.splits)
qed

theorem verify_otp_matching_only_witness:
  "verify_otp full_db \<lparr>ov_invitation_token = ''tokgina'', ov_otp_code = ''654321''\<rparr> 100 =
     (full_db\<lparr>otps := [otp_bob, otp_gina\<lparr>o_is_verified := True\<rparr>]\<rparr>, Inr True) \<and>
   verify_otp full_db \<lparr>ov_invitation_token = ''tokgina'', ov_otp_code = ''000000''\<rparr> 100 =
     (full_db, Inl (HTTPException 400 Invalid_OTP)) \<and>
   verify_otp full_db \<lparr>ov_invitation_token = ''tokbob'', ov_otp_code = ''123456''\<rparr> 100 =
     (full_db, Inl (HTTPException 400 Invalid_OTP)) \<and>
   invitations (fst (verify_otp full_db
      \<lparr>ov_invitation_token = ''tokgina'', ov_otp_code = ''654321''\<rparr> 100)) = invitations full_db"
proof -
  have ok: "verify_otp full_db \<lparr>ov_invitation_token = ''tokgina'', ov_otp_code = ''654321''\<rparr> 100 =
     (full_db\<lparr>otps := [otp_bob, otp_gina\<lparr>o_is_verified := True\<rparr>]\<rparr>, Inr True)"
    by code_simp
  have none: "\<forall>r \<in> set (otps full_db).
      \<not> (o_invitation_token r = ov_invitation_token \<lparr>ov_invitation_token = ''tokgina'', ov_otp_code = ''000000''\<rparr> \<and>
         o_otp_code r = ov_otp_code \<lparr>ov_invitation_token = ''tokgina'', ov_otp_code = ''000000''\<rparr> \<and>
         \<not> o_is_verified r)"
    "\<forall>r \<in> set (otps full_db).
      \<not> (o_invitation_token r = ov_invitation_token \<lparr>ov_invitation_token = ''tokbob'', ov_otp_code = ''123456''\<rparr> \<and>
         o_otp_code r = ov_otp_code \<lparr>ov_invitation_token = ''tokbob'', ov_otp_code = ''123456''\<rparr> \<and>
         \<not> o_is_verified r)"
    by (simp_all add: example_defs)
  from verify_otp_matching_only
         [of full_db "\<lparr>ov_invitation_token = ''tokgina'', ov_otp_code = ''000000''\<rparr>" 100] none(1)
  have bad: "verify_otp full_db \<lparr>ov_invitation_token = ''tokgina'', ov_otp_code = ''000000''\<rparr> 100 =
     (full_db, Inl (HTTPException 400 Invalid_OTP))"
    by blast
  from verify_otp_matching_only
         [of full_db "\<lparr>ov_invitation_token = ''tokbob'', ov_otp_code = ''123456''\<rparr>" 100] none(2)
  have again: "verify_otp full_db \<lparr>ov_invitation_token = ''tokbob'', ov_otp_code = ''123456''\<rparr> 100 =
     (full_db, Inl (HTTPException 400 Invalid_OTP))"
    by blast
  from verify_otp_matching_only
         [of full_db "\<lparr>ov_invitation_token = ''tokgina'', ov_otp_code = ''654321''\<rparr>" 100]
  have inv: "invitations (fst (verify_otp full_db
      \<lparr>ov_invitation_token = ''tokgina'', ov_otp_code = ''654321''\<rparr> 100)) = invitations full_db"
    by blast
  from ok bad again inv show ?thesis by (intro conjI)
qed

subsection \<open>C1: team capacity\<close>

text \<open>
  Claim C1, as stated: for every team the number of member rows never exceeds
  \<open>max_members\<close>. It fails: \<^verbatim>\<open>update_team\<close> stores a new \<open>max_members\<close> without looking at
  the member count. The run below is reachable from the empty database and ends with
  two members in a team of capacity 1.
\<close>

theorem capacity_exceeded_after_update:
  "reachable (run empty_db shrink_requests) \<and>
   map t_id (teams (run empty_db shrink_requests)) = [1] \<and>
   map t_max_members (teams (run empty_db shrink_requests)) = [1] \<and>
   count_members (run empty_db shrink_requests) 1 = 2 \<and>
   \<not> capacity_ok (run empty_db shrink_requests)"
proof -
  have "map t_id (teams (run empty_db shrink_requests)) = [1]"
    "map t_max_members (teams (run empty_db shrink_requests)) = [1]"
    "count_members (run empty_db shrink_requests) 1 = 2"
    "\<not> capacity_ok (run empty_db shrink_requests)"
    by code_simp+
  with reachable_shrink show ?thesis by (intro conjI)
qed

text \<open>
  Claim C1, amended. Neither the member-add nor the join takes a team above its
  capacity. The member-add on an existing team whose member count is at or above
  \<open>max_members\<close> fails with "Team is full"; a join on a team in that state never succeeds,
  and fails with "Team is full" when the invitation is unused, unexpired and
  OTP-satisfied. A successful member-add or join appends exactly one member row, for
  that team, and leaves the team at or below \<open>max_members\<close>. So both keep every team
  within capacity if every team was; \<^verbatim>\<open>update_team\<close> does not.
\<close>

theorem add_and_join_respect_capacity:
  "(\<forall>t. get_team_by_id d team_id = Some t \<and> int (count_members d team_id) \<ge> t_max_members t \<longrightarrow>
      add_team_member d team_id member =
        (d, Inl (HTTPException 400 (Team_is_full (t_max_members t))))) \<and>
   (\<forall>iv t. get_invitation_by_token d token = Some iv \<and>
           get_team_by_id d (i_team_id iv) = Some t \<and>
           int (count_members d (i_team_id iv)) \<ge> t_max_members t \<longrightarrow>
      fst (join_team_via_invitation d token jd now) = d \<and>
      isl (snd (join_team_via_invitation d token jd now)) \<and>
      (\<not> i_is_used iv \<and> \<not> is_expired now (i_expires_at iv) \<and>
       (truthy (i_phone iv) \<longrightarrow> verified_otp d token \<noteq> None) \<longrightarrow>
         join_team_via_invitation d token jd now =
           (d, Inl (HTTPException 400 (Team_is_full (t_max_members t)))))) \<and>
   (\<forall>r. snd (add_team_member d team_id member) = Inr r \<longrightarrow>
      (\<exists>t. get_team_by_id d team_id = Some t \<and>
           fst (add_team_member d team_id member) = d\<lparr>members := members d @ [r]\<rparr> \<and>
           m_team_id r = team_id \<and>
           count_members (fst (add_team_member d team_id member)) team_id =
             Suc (count_members d team_id) \<and>
           int (count_members (fst (add_team_member d team_id member)) team_id)
             \<le> t_max_members t)) \<and>
   (\<forall>r. snd (join_team_via_invitation d token jd now) = Inr r \<longrightarrow>
      (\<exists>iv t. get_invitation_by_token d token = Some iv \<and>
           get_team_by_id d (i_team_id iv) = Some t \<and>
           members (fst (join_team_via_invitation d token jd now)) = members d @ [r] \<and>
           teams (fst (join_team_via_invitation d token jd now)) = teams d \<and>
           m_team_id r = i_team_id iv \<and>
           count_members (fst (join_team_via_invitation d token jd now)) (i_team_id iv) =
             Suc (count_members d (i_team_id iv)) \<and>
           int (count_members (fst (join_team_via_invitation d token jd now)) (i_team_id iv))
             \<le> t_max_members t)) \<and>
   (team_ids_unique d \<and> capacity_ok d \<longrightarrow>
      capacity_ok (fst (add_team_member d team_id member)) \<and>
      capacity_ok (fst (join_team_via_invitation d token jd now)))"
proof (intro conjI allI impI)
  fix t assume "get_team_by_id d team_id = Some t \<and> int (count_members d team_id) \<ge> t_max_members t"
  then show "add_team_member d team_id member =
        (d, Inl (HTTPException 400 (Team_is_full (t_max_members t))))"
    by (simp add: add_full)
next
  fix iv t
  assume a: "get_invitation_by_token d token = Some iv \<and>
           get_team_by_id d (i_team_id iv) = Some t \<and>
           int (count_members d (i_team_id iv)) \<ge> t_max_members t"
  then show "fst (join_team_via_invitation d token jd now) = d"
    by (simp add: join_team_via_invitation_def)
  from a show "isl (snd (join_team_via_invitation d token jd now))"
    by (simp add: join_team_via_invitation_def)
  assume "\<not> i_is_used iv \<and> \<not> is_expired now (i_expires_at iv) \<and>
       (truthy (i_phone iv) \<longrightarrow> verified_otp d token \<noteq> None)"
  with a show "join_team_via_invitation d token jd now =
           (d, Inl (HTTPException 400 (Team_is_full (t_max_members t))))"
    by (simp add: join_full)
next
  fix r assume "snd (add_team_member d team_id member) = Inr r"
  then show "\<exists>t. get_team_by_id d team_id = Some t \<and>
           fst (add_team_member d team_id member) = d\<lparr>members := members d @ [r]\<rparr> \<and>
           m_team_id r = team_id \<and>
           count_members (fst (add_team_member d team_id member)) team_id =
             Suc (count_members d team_id) \<and>
           int (count_members (fst (add_team_member d team_id member)) team_id)
             \<le> t_max_members t"
    by (rule add_Inr_cases) (simp add: add_success count_members_def)
next
  fix r assume "snd (join_team_via_invitation d token jd now) = Inr r"
  then show "\<exists>iv t. get_invitation_by_token d token = Some iv \<and>
           get_team_by_id d (i_team_id iv) = Some t \<and>
           members (fst (join_team_via_invitation d token jd now)) = members d @ [r] \<and>
           teams (fst (join_team_via_invitation d token jd now)) = teams d \<and>
           m_team_id r = i_team_id iv \<and>
           count_members (fst (join_team_via_invitation d token jd now)) (i_team_id iv) =
             Suc (count_members d (i_team_id iv)) \<and>
           int (count_members (fst (join_team_via_invitation d token jd now)) (i_team_id iv))
             \<le> t_max_members t"
    by (rule join_Inr_cases) (simp add: join_success count_members_def join_member_def)
next
  assume "team_ids_unique d \<and> capacity_ok d"
  then show "capacity_ok (fst (add_team_member d team_id member))"
    by (simp add: add_preserves_capacity)
next
  assume "team_ids_unique d \<and> capacity_ok d"
  then show "capacity_ok (fst (join_team_via_invitation d token jd now))"
    by (simp add: join_preserves_capacity)
qed

theorem add_and_join_respect_capacity_witness:
  "add_team_member full_db 1 dora = (full_db, Inl (HTTPException 400 (Team_is_full 1))) \<and>
   join_team_via_invitation full_db ''tokfrank'' jd0 100 =
     (full_db, Inl (HTTPException 400 (Team_is_full 1))) \<and>
   count_members (fst (add_team_member roomy_db 1 dora)) 1 = 2 \<and>
   count_members (fst (join_team_via_invitation roomy_db ''tokfrank'' jd0 100)) 1 = 2 \<and>
   team_ids_unique roomy_db \<and> capacity_ok roomy_db \<and>
   capacity_ok (fst (add_team_member roomy_db 1 dora)) \<and>
   capacity_ok (fst (join_team_via_invitation roomy_db ''tokfrank'' jd0 100))"
proof -
  note full = add_and_join_respect_capacity [of full_db 1 dora "''tokfrank''" jd0 100]
  note roomy = add_and_join_respect_capacity [of roomy_db 1 dora "''tokfrank''" jd0 100]
  have f: "get_team_by_id full_db 1 = Some team1"
    "int (count_members full_db 1) \<ge> t_max_members team1"
    "get_invitation_by_token full_db ''tokfrank'' = Some inv_frank"
    "get_team_by_id full_db (i_team_id inv_frank) = Some team1"
    "int (count_members full_db (i_team_id inv_frank)) \<ge> t_max_members team1"
    "\<not> i_is_used inv_frank" "\<not> is_expired 100 (i_expires_at inv_frank)"
    "\<not> truthy (i_phone inv_frank)" "t_max_members team1 = 1"
    by (simp_all add: full_db_lookups example_fields is_expired_def truthy_def)
       (simp_all add: team1_def)
  from full f(1,2)
  have 1: "add_team_member full_db 1 dora =
      (full_db, Inl (HTTPException 400 (Team_is_full (t_max_members team1))))"
    by blast
  from full f(3-8)
  have 2: "join_team_via_invitation full_db ''tokfrank'' jd0 100 =
      (full_db, Inl (HTTPException 400 (Team_is_full (t_max_members team1))))"
    by blast
  have ok: "snd (add_team_member roomy_db 1 dora) =
      Inr \<lparr>m_id = 2, m_team_id = 1, m_name = ''Dora'', m_email = ''dora@example.com'',
           m_phone = None, m_role = Some ''Designer''\<rparr>"
    "snd (join_team_via_invitation roomy_db ''tokfrank'' jd0 100) =
      Inr (join_member roomy_db inv_frank jd0)"
    by code_simp+
  have c: "count_members roomy_db 1 = 1" "i_team_id inv_frank = 1"
    "get_invitation_by_token roomy_db ''tokfrank'' = Some inv_frank"
    by (simp_all add: roomy_db_lookups example_fields)
  from roomy ok(1)
  have "count_members (fst (add_team_member roomy_db 1 dora)) 1 = Suc (count_members roomy_db 1)"
    by blast
  with c(1)
  have 3: "count_members (fst (add_team_member roomy_db 1 dora)) 1 = 2"
    by simp
  from roomy ok(2) obtain iv where
    "get_invitation_by_token roomy_db ''tokfrank'' = Some iv"
    "count_members (fst (join_team_via_invitation roomy_db ''tokfrank'' jd0 100)) (i_team_id iv) =
       Suc (count_members roomy_db (i_team_id iv))"
    by blast
  with c
  have 4: "count_members (fst (join_team_via_invitation roomy_db ''tokfrank'' jd0 100)) 1 = 2"
    by simp
  have inv: "team_ids_unique roomy_db" "capacity_ok roomy_db"
    by code_simp+
  with roomy
  have 5: "capacity_ok (fst (add_team_member roomy_db 1 dora))"
    "capacity_ok (fst (join_team_via_invitation roomy_db ''tokfrank'' jd0 100))"
    by blast+
  from 1 [unfolded f(9)] 2 [unfolded f(9)] 3 4 inv 5 show ?thesis by (intro conjI)
qed

subsection \<open>C7: one active invitation for a team and an email\<close>




end
